theory Spec2Isabelle
  imports Complex_Main "HOL-Library.AList"
begin

section \<open>Saving and loading a fully-connected network\<close>

text \<open>
  The development follows the notebook \<^emph>\<open>Part 6 - Saving and Loading Models\<close>: the cell that
  writes the bare parameter dictionary, the cell that builds the \<open>checkpoint\<close> dictionary and
  writes it, and the function \<open>load_checkpoint\<close>. The notebook calls into \<open>torch\<close> and into the
  module \<open>fc_model\<close>; both are outside the notebook and are modelled by what the notebook
  prints of them and by what the specification says of them.
\<close>

subsection \<open>Tensors, layers and the network object\<close>

text \<open>
  The element types of the tensors of a network: \<open>torch.half\<close>, \<open>torch.float\<close> (the default of
  torch, in which \<open>nn.Linear\<close> creates its parameters) and \<open>torch.double\<close>.
\<close>

datatype dtype = Float16 | Float32 | Float64

text \<open>
  A tensor is its size (\<open>torch.Size\<close>, a list of Python integers), its element type and its
  values in row-major order. The values are floating point numbers in the program; the
  type of the values is left open here, and what torch computes with them is a parameter
  wherever it matters.
\<close>

record 'a tensor =
  shape :: "int list"
  dtype :: dtype
  data :: "'a list"

text \<open>
  \<open>nn.Linear\<close> as the notebook prints it,
  \<open>Linear(in_features=784, out_features=512, bias=True)\<close>, with its two parameters: the weight
  of size \<open>[out_features, in_features]\<close> and the bias of size \<open>[out_features]\<close>.
\<close>

record 'a Linear =
  in_features :: int
  out_features :: int
  weight :: "'a tensor"
  bias :: "'a tensor"

text \<open>
  The object \<open>fc_model.Network\<close> as the notebook prints it: the module list \<open>hidden_layers\<close>,
  the layer \<open>output\<close> (here \<open>output_layer\<close>) and \<open>Dropout(p=0.5)\<close>, whose rate is the field
  \<open>dropout\<close>. As every module of torch, the object is in training mode or in evaluation
  mode (\<open>training\<close>); a new module is in training mode.
\<close>

record 'a Network =
  hidden_layers :: "'a Linear list"
  output_layer :: "'a Linear"
  dropout :: rat
  training :: bool

subsection \<open>Python exceptions and objects\<close>

text \<open>
  What \<open>load_state_dict\<close> reports: a parameter of the model that the dictionary lacks, a key
  of the dictionary that names no parameter, a value that is not a tensor, and a tensor of
  another size. The notebook records the last kind: "While copying the parameter named
  hidden_layers.0.weight, whose dimensions in the model are torch.Size([400, 784]) and
  whose dimensions in the checkpoint are torch.Size([512, 784])"; the sizes are kept in
  this order.
\<close>

datatype problem =
  MissingKey string
| UnexpectedKey string
| NotATensor string
| SizeMismatch string "int list" "int list"

text \<open>
  The exceptions the modelled calls raise. \<open>RuntimeError\<close> is the one \<open>load_state_dict\<close>
  raises ("Error(s) in loading state_dict for Network"). \<open>DimensionError\<close> stands for torch
  refusing to allocate a tensor with a negative dimension and \<open>ArchiveError\<close> for the reader
  of \<open>torch.load\<close> refusing an archive; in Python both are of the class \<open>RuntimeError\<close> too,
  and they are kept apart here because they come from other calls.
\<close>

datatype exn =
  FileNotFoundError
| UnpicklingError
| EOFError
| ArchiveError
| OSError
| NameError string
| KeyError string
| TypeError
| IndexError
| DimensionError
| RuntimeError "problem list"

text \<open>
  The Python objects the notebook passes to \<open>torch.save\<close>, and their parts: integers, lists
  of integers, tensors, and dictionaries with string keys (the \<open>checkpoint\<close> dictionary, and
  the ordered dictionary of named tensors that \<open>state_dict()\<close> returns). A dictionary is
  the list of its items in order; a key is looked up from the front.
\<close>

datatype 'a pyobj =
  PInt int
| PIntList "int list"
| PTensor "'a tensor"
| PDict "(string \<times> 'a pyobj) list"

text \<open>
  \<open>d[k]\<close> for a string \<open>k\<close>: a dictionary gives the value or raises \<open>KeyError\<close>; an integer
  and a list raise \<open>TypeError\<close>; a tensor raises \<open>IndexError\<close>.
\<close>

fun getitem :: "'a pyobj \<Rightarrow> string \<Rightarrow> exn + 'a pyobj" where
  "getitem (PDict kvs) k =
     (case map_of kvs k of None \<Rightarrow> Inl (KeyError k) | Some v \<Rightarrow> Inr v)"
| "getitem (PTensor t) k = Inl IndexError"
| "getitem _ k = Inl TypeError"

text \<open>
  A dictionary of named tensors as a Python object, and the way back: the named tensors
  of an object, if it is a dictionary all of whose values are tensors. A dictionary has
  one value for a key: an item of the list that stands behind an earlier item with the
  same key is not an item of the dictionary, and is left out.
\<close>

definition tensor_entries :: "(string \<times> 'a tensor) list \<Rightarrow> (string \<times> 'a pyobj) list" where
  "tensor_entries sd = map (\<lambda>(k, t). (k, PTensor t)) sd"

definition tensor_dict :: "(string \<times> 'a tensor) list \<Rightarrow> 'a pyobj" where
  "tensor_dict sd = PDict (tensor_entries sd)"

fun as_tensors :: "(string \<times> 'a pyobj) list \<Rightarrow> (string \<times> 'a tensor) list option" where
  "as_tensors [] = Some []"
| "as_tensors ((k, PTensor t) # kvs) = map_option ((#) (k, t)) (as_tensors kvs)"
| "as_tensors (_ # kvs) = None"

fun as_tensor_dict :: "'a pyobj \<Rightarrow> (string \<times> 'a tensor) list option" where
  "as_tensor_dict (PDict kvs) = as_tensors (AList.clearjunk kvs)"
| "as_tensor_dict _ = None"

subsection \<open>Files\<close>

text \<open>
  A file holds either the serialised form of an object, as \<open>torch.save\<close> writes it, or bytes
  that \<open>torch.load\<close> cannot deserialise. The byte layout of the serialised form belongs to
  torch; its contract is that an object written is the object read back. On other bytes
  \<open>torch.load\<close> raises, and which exception it raises depends on the bytes: they are not a
  pickle, they end too early, they are an archive the reader refuses, or they cannot be
  read.
\<close>

datatype load_failure = NotAPickle | Truncated | BadArchive | Unreadable

fun load_error :: "load_failure \<Rightarrow> exn" where
  "load_error NotAPickle = UnpicklingError"
| "load_error Truncated = EOFError"
| "load_error BadArchive = ArchiveError"
| "load_error Unreadable = OSError"

datatype 'a blob =
  Pickled "'a pyobj"
| Raw load_failure "nat list"

type_synonym 'a files = "string \<rightharpoonup> 'a blob"

text \<open>\<open>torch.save(obj, f)\<close>, when it completes.\<close>

definition torch_save :: "'a pyobj \<Rightarrow> string \<Rightarrow> 'a files \<Rightarrow> 'a files" where
  "torch_save obj f fs = fs(f \<mapsto> Pickled obj)"

text \<open>
  \<open>torch.save(obj, f)\<close> with the ways it can end. It completes, or it raises some
  exception while it writes; a save that fails leaves no defined contents at the
  destination: the file may be gone, hold a part of the new bytes, or hold anything else.
\<close>

datatype 'a save_outcome =
  Completed
| Failed exn "'a blob option"

fun torch_save_outcome ::
  "'a save_outcome \<Rightarrow> 'a pyobj \<Rightarrow> string \<Rightarrow> 'a files \<Rightarrow> exn option \<times> 'a files" where
  "torch_save_outcome Completed obj f fs = (None, torch_save obj f fs)"
| "torch_save_outcome (Failed e left) obj f fs = (Some e, fs(f := left))"

definition torch_load :: "string \<Rightarrow> 'a files \<Rightarrow> exn + 'a pyobj" where
  "torch_load f fs =
     (case fs f of
        None \<Rightarrow> Inl FileNotFoundError
      | Some (Raw why bs) \<Rightarrow> Inl (load_error why)
      | Some (Pickled obj) \<Rightarrow> Inr obj)"

subsection \<open>Parameter names\<close>

text \<open>
  Python's \<open>str\<close> of a natural number, digit by digit (\<open>digit\<close> is only ever applied to a
  number below ten).
\<close>

definition digit :: "nat \<Rightarrow> char" where
  "digit d = ''0123456789'' ! d"

function str_nat :: "nat \<Rightarrow> string" where
  "str_nat n = (if n < 10 then [digit n] else str_nat (n div 10) @ [digit (n mod 10)])"
  by pat_completeness auto
termination
  by (relation "measure id") auto

declare str_nat.simps [simp del]

text \<open>
  The keys of the state dict as the notebook prints them: \<open>hidden_layers.0.weight\<close>,
  \<open>hidden_layers.0.bias\<close>, ..., \<open>output.weight\<close>, \<open>output.bias\<close>.
\<close>

definition hidden_key :: "nat \<Rightarrow> string \<Rightarrow> string" where
  "hidden_key i p = ''hidden_layers.'' @ str_nat i @ ''.'' @ p"

fun hidden_entries :: "nat \<Rightarrow> 'a Linear list \<Rightarrow> (string \<times> 'a tensor) list" where
  "hidden_entries i [] = []"
| "hidden_entries i (l # ls) =
     (hidden_key i ''weight'', weight l) # (hidden_key i ''bias'', bias l)
       # hidden_entries (Suc i) ls"

definition state_dict :: "'a Network \<Rightarrow> (string \<times> 'a tensor) list" where
  "state_dict net =
     hidden_entries 0 (hidden_layers net)
       @ [(''output.weight'', weight (output_layer net)), (''output.bias'', bias (output_layer net))]"

subsection \<open>Building a network\<close>

text \<open>
  \<open>nn.Linear(in_features, out_features)\<close>. The parameters are created in the default element
  type of torch. The initial values are random in the program; here they are read from
  two given sequences, one for the weight and one for the bias.
\<close>

definition nn_Linear :: "(nat \<Rightarrow> 'a) \<Rightarrow> (nat \<Rightarrow> 'a) \<Rightarrow> int \<Rightarrow> int \<Rightarrow> exn + 'a Linear" where
  "nn_Linear rw rb i o' =
     (if i < 0 \<or> o' < 0 then Inl DimensionError
      else Inr \<lparr>in_features = i, out_features = o',
                weight = \<lparr>shape = [o', i], dtype = Float32, data = map rw [0..<nat (o' * i)]\<rparr>,
                bias = \<lparr>shape = [o'], dtype = Float32, data = map rb [0..<nat o']\<rparr>\<rparr>)"

text \<open>
  Modelled from the spec: the class \<open>fc_model.Network\<close> is not among the source files. The
  specification's data model fixes what it builds: one layer per entry of
  \<open>hidden_layer_sizes\<close>, in order, the first with input dimension \<open>input_size\<close>, each next one
  with the input dimension equal to the output dimension of the one before, and an output
  layer with output dimension \<open>output_size\<close>. The notebook prints exactly this for
  \<open>Network(784, 10, [512, 256, 128])\<close>. \<open>linears\<close> builds the chain of hidden layers; layer
  number \<open>k\<close> draws its initial values from the sequences \<open>2k\<close> and \<open>2k+1\<close> of \<open>rng\<close>.
\<close>

fun linears :: "(nat \<Rightarrow> nat \<Rightarrow> 'a) \<Rightarrow> nat \<Rightarrow> int \<Rightarrow> int list \<Rightarrow> exn + 'a Linear list" where
  "linears rng k i [] = Inr []"
| "linears rng k i (h # hs) =
     (case nn_Linear (rng (2 * k)) (rng (2 * k + 1)) i h of
        Inl e \<Rightarrow> Inl e
      | Inr l \<Rightarrow>
          (case linears rng (Suc k) h hs of
             Inl e \<Rightarrow> Inl e
           | Inr ls \<Rightarrow> Inr (l # ls)))"

text \<open>
  Modelled from the spec: the constructor of \<open>fc_model.Network\<close> on integers, absent as the
  class is, as the notebook calls it with three arguments. The hidden layers, then the
  output layer from the last hidden size to \<open>output_size\<close>, the dropout rate the notebook
  prints, and the training mode of a new module. A network has at least one hidden layer:
  the first hidden size is read with \<open>hidden_layers[0]\<close>.
\<close>

definition Network_of_sizes ::
  "(nat \<Rightarrow> nat \<Rightarrow> 'a) \<Rightarrow> int \<Rightarrow> int \<Rightarrow> int list \<Rightarrow> exn + 'a Network" where
  "Network_of_sizes rng input_size output_size hs =
     (if hs = [] then Inl IndexError
      else
        (case linears rng 0 input_size hs of
           Inl e \<Rightarrow> Inl e
         | Inr hl \<Rightarrow>
             (case nn_Linear (rng (2 * length hs)) (rng (2 * length hs + 1)) (last hs) output_size of
                Inl e \<Rightarrow> Inl e
              | Inr out \<Rightarrow>
                  Inr \<lparr>hidden_layers = hl, output_layer = out, dropout = 1 / 2,
                       training = True\<rparr>)))"

text \<open>
  Modelled from the spec: the call \<open>fc_model.Network(a, b, c)\<close> on Python objects. The two
  sizes are integers and the hidden sizes a list of integers; anything else is a type
  error.
\<close>

fun fc_model_Network ::
  "(nat \<Rightarrow> nat \<Rightarrow> 'a) \<Rightarrow> 'a pyobj \<Rightarrow> 'a pyobj \<Rightarrow> 'a pyobj \<Rightarrow> exn + 'a Network" where
  "fc_model_Network rng (PInt i) (PInt o') (PIntList hs) = Network_of_sizes rng i o' hs"
| "fc_model_Network rng _ _ _ = Inl TypeError"

text \<open>
  The tensor operations of torch that a forward pass uses: the affine map of a layer
  (input, weight, bias), the activation, dropout with a given rate, and the final
  normalisation. They compute with floating point numbers, and dropout draws its mask
  from the random number generator of torch, whose state it changes; here they are
  parameters, and the state of the generator is passed along.
\<close>

record ('a, 'g) torch_ops =
  F_linear :: "'a tensor \<Rightarrow> 'a tensor \<Rightarrow> 'a tensor \<Rightarrow> 'a tensor"
  F_relu :: "'a tensor \<Rightarrow> 'a tensor"
  F_dropout :: "rat \<Rightarrow> 'g \<Rightarrow> 'a tensor \<Rightarrow> 'a tensor \<times> 'g"
  F_log_softmax :: "'a tensor \<Rightarrow> 'a tensor"

text \<open>
  The dropout module of a network: in training mode it drops values at the rate of the
  network, in evaluation mode it gives its input back and draws nothing.
\<close>

definition dropout_forward ::
  "('a, 'g) torch_ops \<Rightarrow> 'a Network \<Rightarrow> 'g \<Rightarrow> 'a tensor \<Rightarrow> 'a tensor \<times> 'g" where
  "dropout_forward ops net g x =
     (if training net then F_dropout ops (dropout net) g x else (x, g))"

text \<open>
  Modelled from the spec: \<open>Network.forward\<close> is absent with the class. The forward
  computation runs the input through the hidden layers in order, each followed by the
  activation and the dropout module, and then through the output layer: it is whatever
  the tensor operations compute from the input, the parameters of the layers, the mode
  and the state of the generator. The result is the output and the new state of the
  generator.
\<close>

fun hidden_forward ::
  "('a, 'g) torch_ops \<Rightarrow> 'a Network \<Rightarrow> 'a Linear list \<Rightarrow> 'a tensor \<Rightarrow> 'g \<Rightarrow> 'a tensor \<times> 'g" where
  "hidden_forward ops net [] x g = (x, g)"
| "hidden_forward ops net (each # rest) x g =
     (case dropout_forward ops net g (F_relu ops (F_linear ops x (weight each) (bias each))) of
        (x', g') \<Rightarrow> hidden_forward ops net rest x' g')"

definition forward ::
  "('a, 'g) torch_ops \<Rightarrow> 'g \<Rightarrow> 'a Network \<Rightarrow> 'a tensor \<Rightarrow> 'a tensor \<times> 'g" where
  "forward ops g net x =
     (case hidden_forward ops net (hidden_layers net) x g of
        (h, g') \<Rightarrow>
          (F_log_softmax ops
             (F_linear ops h (weight (output_layer net)) (bias (output_layer net))), g'))"

text \<open>\<open>model.eval()\<close>: the network in evaluation mode.\<close>

definition eval_mode :: "'a Network \<Rightarrow> 'a Network" where
  "eval_mode net = net\<lparr>training := False\<rparr>"

subsection \<open>Loading a state dict into a network\<close>

text \<open>
  \<open>model.load_state_dict(state_dict)\<close>, as the notebook describes it: "Loading the state dict
  works only if the model architecture is exactly the same as the checkpoint architecture."
  Every parameter of the model must be in the dictionary, every key of the dictionary must
  name a parameter of the model, every value must be a tensor and the sizes must agree;
  otherwise the call raises the \<open>RuntimeError\<close> that lists the problems. An argument that is
  not a dictionary is a type error.
\<close>

definition missing_keys ::
  "(string \<times> 'a tensor) list \<Rightarrow> (string \<times> 'a pyobj) list \<Rightarrow> string list" where
  "missing_keys own sd = filter (\<lambda>k. map_of sd k = None) (map fst own)"

definition unexpected_keys ::
  "(string \<times> 'a tensor) list \<Rightarrow> (string \<times> 'a pyobj) list \<Rightarrow> string list" where
  "unexpected_keys own sd = filter (\<lambda>k. map_of own k = None) (map fst sd)"

fun copy_problems ::
  "(string \<times> 'a tensor) list \<Rightarrow> (string \<times> 'a pyobj) list \<Rightarrow> problem list" where
  "copy_problems [] sd = []"
| "copy_problems ((k, param) # own) sd =
     (case map_of sd k of
        None \<Rightarrow> copy_problems own sd
      | Some (PTensor input_param) \<Rightarrow>
          (if shape input_param \<noteq> shape param
           then SizeMismatch k (shape param) (shape input_param) # copy_problems own sd
           else copy_problems own sd)
      | Some _ \<Rightarrow> NotATensor k # copy_problems own sd)"

text \<open>
  \<open>param.copy_(input_param)\<close>, for the parameter named \<open>k\<close>: when the dictionary has a tensor
  of the size of the parameter under \<open>k\<close>, its values are copied into the parameter, which
  keeps its own element type. Values of the same element type are copied as they are;
  values of another element type are converted, and \<open>cast\<close> is the conversion of torch from
  one element type to another. A parameter for which the dictionary has nothing to copy
  is left as it is.
\<close>

definition copy_from ::
  "(dtype \<Rightarrow> dtype \<Rightarrow> 'a \<Rightarrow> 'a) \<Rightarrow> 'a tensor \<Rightarrow> (string \<times> 'a pyobj) list \<Rightarrow> string \<Rightarrow> 'a tensor" where
  "copy_from cast param sd k =
     (case map_of sd k of
        Some (PTensor input_param) \<Rightarrow>
          (if shape input_param = shape param
           then param\<lparr>data :=
                  (if dtype input_param = dtype param then data input_param
                   else map (cast (dtype input_param) (dtype param)) (data input_param))\<rparr>
           else param)
      | _ \<Rightarrow> param)"

fun assign_hidden ::
  "(dtype \<Rightarrow> dtype \<Rightarrow> 'a \<Rightarrow> 'a) \<Rightarrow> nat \<Rightarrow> 'a Linear list \<Rightarrow> (string \<times> 'a pyobj) list \<Rightarrow> 'a Linear list" where
  "assign_hidden cast i [] sd = []"
| "assign_hidden cast i (l # ls) sd =
     l\<lparr>weight := copy_from cast (weight l) sd (hidden_key i ''weight''),
       bias := copy_from cast (bias l) sd (hidden_key i ''bias'')\<rparr>
       # assign_hidden cast (Suc i) ls sd"

text \<open>
  The network after the parameters of the dictionary have been copied into it. The call
  copies what it can before it raises, so this is also what a call that raises leaves.
\<close>

definition assign_params ::
  "(dtype \<Rightarrow> dtype \<Rightarrow> 'a \<Rightarrow> 'a) \<Rightarrow> 'a Network \<Rightarrow> (string \<times> 'a pyobj) list \<Rightarrow> 'a Network" where
  "assign_params cast net sd =
     net\<lparr>hidden_layers := assign_hidden cast 0 (hidden_layers net) sd,
         output_layer := (output_layer net)
           \<lparr>weight := copy_from cast (weight (output_layer net)) sd ''output.weight'',
            bias := copy_from cast (bias (output_layer net)) sd ''output.bias''\<rparr>\<rparr>"

fun load_state_dict ::
  "(dtype \<Rightarrow> dtype \<Rightarrow> 'a \<Rightarrow> 'a) \<Rightarrow> 'a Network \<Rightarrow> 'a pyobj \<Rightarrow> exn + 'a Network" where
  "load_state_dict cast net (PDict sd) =
     (let own = state_dict net;
          error_msgs = map MissingKey (missing_keys own sd)
                         @ map UnexpectedKey (unexpected_keys own sd)
                         @ copy_problems own sd
      in if error_msgs = [] then Inr (assign_params cast net sd)
         else Inl (RuntimeError error_msgs))"
| "load_state_dict cast net _ = Inl TypeError"

text \<open>The network that \<open>load_state_dict\<close> leaves behind, whether it returns or raises.\<close>

fun after_load_state_dict ::
  "(dtype \<Rightarrow> dtype \<Rightarrow> 'a \<Rightarrow> 'a) \<Rightarrow> 'a Network \<Rightarrow> 'a pyobj \<Rightarrow> 'a Network" where
  "after_load_state_dict cast net (PDict sd) = assign_params cast net sd"
| "after_load_state_dict cast net _ = net"

subsection \<open>The cells of the notebook\<close>

text \<open>
  The dictionary of the cell that builds \<open>checkpoint\<close>: the two sizes are the literals \<open>784\<close>
  and \<open>10\<close>, the hidden sizes are \<open>[each.out_features for each in model.hidden_layers]\<close>, and
  the parameters are \<open>model.state_dict()\<close>.
\<close>

definition checkpoint_of :: "'a Network \<Rightarrow> 'a pyobj" where
  "checkpoint_of net =
     PDict [(''input_size'', PInt 784),
            (''output_size'', PInt 10),
            (''hidden_layers'', PIntList (map out_features (hidden_layers net))),
            (''state_dict'', tensor_dict (state_dict net))]"

text \<open>
  \<open>load_checkpoint(filepath)\<close>. The three arguments of \<open>fc_model.Network\<close> are read from the
  dictionary before the call, the state dict after it. \<open>rng\<close> gives the initial values of
  the new network, \<open>cast\<close> is the conversion of torch between element types, and \<open>fs\<close> is
  the file system.
\<close>

definition load_checkpoint ::
  "(dtype \<Rightarrow> dtype \<Rightarrow> 'a \<Rightarrow> 'a) \<Rightarrow> (nat \<Rightarrow> nat \<Rightarrow> 'a) \<Rightarrow> string \<Rightarrow> 'a files \<Rightarrow> exn + 'a Network" where
  "load_checkpoint cast rng filepath fs =
     (case torch_load filepath fs of
        Inl e \<Rightarrow> Inl e
      | Inr checkpoint \<Rightarrow>
     (case getitem checkpoint ''input_size'' of
        Inl e \<Rightarrow> Inl e
      | Inr a \<Rightarrow>
     (case getitem checkpoint ''output_size'' of
        Inl e \<Rightarrow> Inl e
      | Inr b \<Rightarrow>
     (case getitem checkpoint ''hidden_layers'' of
        Inl e \<Rightarrow> Inl e
      | Inr c \<Rightarrow>
     (case fc_model_Network rng a b c of
        Inl e \<Rightarrow> Inl e
      | Inr model \<Rightarrow>
     (case getitem checkpoint ''state_dict'' of
        Inl e \<Rightarrow> Inl e
      | Inr sd \<Rightarrow> load_state_dict cast model sd))))))"

text \<open>
  The state of the notebook: the global variable \<open>model\<close>, bound to a network before any of
  the statements below runs; the global variables \<open>state_dict\<close> and \<open>checkpoint\<close>, unbound
  until a statement assigns them; and the files.
\<close>

record 'a notebook =
  var_model :: "'a Network"
  var_state_dict :: "'a pyobj option"
  var_checkpoint :: "'a pyobj option"
  files :: "'a files"

text \<open>\<open>torch.save(model.state_dict(), 'checkpoint.pth')\<close>, when the save completes.\<close>

definition cell_save_state_dict :: "'a notebook \<Rightarrow> 'a notebook" where
  "cell_save_state_dict s =
     s\<lparr>files := torch_save (tensor_dict (state_dict (var_model s))) ''checkpoint.pth'' (files s)\<rparr>"

text \<open>\<open>state_dict = torch.load('checkpoint.pth')\<close>\<close>

definition cell_load_state_dict :: "'a notebook \<Rightarrow> exn + 'a notebook" where
  "cell_load_state_dict s =
     (case torch_load ''checkpoint.pth'' (files s) of
        Inl e \<Rightarrow> Inl e
      | Inr obj \<Rightarrow> Inr (s\<lparr>var_state_dict := Some obj\<rparr>))"

text \<open>
  \<open>model = fc_model.Network(784, 10, [400, 200, 100])\<close>, for any three sizes: the variable
  \<open>model\<close> is bound to the new network.
\<close>

definition cell_new_model ::
  "(nat \<Rightarrow> nat \<Rightarrow> 'a) \<Rightarrow> int \<Rightarrow> int \<Rightarrow> int list \<Rightarrow> 'a notebook \<Rightarrow> exn + 'a notebook" where
  "cell_new_model rng i o' hs s =
     (case fc_model_Network rng (PInt i) (PInt o') (PIntList hs) of
        Inl e \<Rightarrow> Inl e
      | Inr model \<Rightarrow> Inr (s\<lparr>var_model := model\<rparr>))"

text \<open>
  \<open>model.load_state_dict(state_dict)\<close>: the parameters of the network that \<open>model\<close> holds are
  overwritten. The notebook runs this statement twice, on the trained model and on the
  model of another architecture.
\<close>

definition cell_load_into_model ::
  "(dtype \<Rightarrow> dtype \<Rightarrow> 'a \<Rightarrow> 'a) \<Rightarrow> 'a notebook \<Rightarrow> exn + 'a notebook" where
  "cell_load_into_model cast s =
     (case var_state_dict s of
        None \<Rightarrow> Inl (NameError ''state_dict'')
      | Some sd \<Rightarrow>
          (case load_state_dict cast (var_model s) sd of
             Inl e \<Rightarrow> Inl e
           | Inr model \<Rightarrow> Inr (s\<lparr>var_model := model\<rparr>)))"

text \<open>
  The cell that assigns \<open>checkpoint\<close> and calls \<open>torch.save(checkpoint, 'checkpoint.pth')\<close>,
  when the save completes.
\<close>

definition cell_save_checkpoint :: "'a notebook \<Rightarrow> 'a notebook" where
  "cell_save_checkpoint s =
     (let checkpoint = checkpoint_of (var_model s)
      in s\<lparr>var_checkpoint := Some checkpoint,
           files := torch_save checkpoint ''checkpoint.pth'' (files s)\<rparr>)"

text \<open>\<open>model = load_checkpoint('checkpoint.pth')\<close>\<close>

definition cell_load_checkpoint ::
  "(dtype \<Rightarrow> dtype \<Rightarrow> 'a \<Rightarrow> 'a) \<Rightarrow> (nat \<Rightarrow> nat \<Rightarrow> 'a) \<Rightarrow> 'a notebook \<Rightarrow> exn + 'a notebook" where
  "cell_load_checkpoint cast rng s =
     (case load_checkpoint cast rng ''checkpoint.pth'' (files s) of
        Inl e \<Rightarrow> Inl e
      | Inr model \<Rightarrow> Inr (s\<lparr>var_model := model\<rparr>))"

subsection \<open>Architecture and validity\<close>

text \<open>
  The architecture fields of a network. The object has no attribute for them: they are
  read from its layers, as the checkpoint cell reads the hidden sizes.
\<close>

definition input_size :: "'a Network \<Rightarrow> int" where
  "input_size net =
     (case hidden_layers net of [] \<Rightarrow> in_features (output_layer net) | l # _ \<Rightarrow> in_features l)"

definition output_size :: "'a Network \<Rightarrow> int" where
  "output_size net = out_features (output_layer net)"

definition hidden_layer_sizes :: "'a Network \<Rightarrow> int list" where
  "hidden_layer_sizes net = map out_features (hidden_layers net)"

text \<open>
  A tensor of a given size holds as many values as the size says; the parameters of a
  layer have the sizes its features give them.
\<close>

definition tensor_of_size :: "int list \<Rightarrow> 'a tensor \<Rightarrow> bool" where
  "tensor_of_size sh t = (shape t = sh \<and> length (data t) = nat (prod_list sh))"

definition wf_Linear :: "'a Linear \<Rightarrow> bool" where
  "wf_Linear l =
     (tensor_of_size [out_features l, in_features l] (weight l)
      \<and> tensor_of_size [out_features l] (bias l))"

text \<open>Each layer takes what the layer before it gives, starting from \<open>i\<close>.\<close>

fun chained :: "int \<Rightarrow> 'a Linear list \<Rightarrow> bool" where
  "chained i [] = True"
| "chained i (l # ls) = (in_features l = i \<and> chained (out_features l) ls)"

text \<open>
  A valid model: a fully-connected network with a positive input size, a positive output
  size and a non-empty list of positive hidden sizes, whose layers are chained and whose
  parameters have the sizes of their layers, whatever the values and the element type of
  the parameters, the dropout rate and the mode are.
\<close>

definition valid_model :: "'a Network \<Rightarrow> bool" where
  "valid_model net =
     (hidden_layers net \<noteq> []
      \<and> list_all wf_Linear (hidden_layers net) \<and> wf_Linear (output_layer net)
      \<and> chained (input_size net) (hidden_layers net @ [output_layer net])
      \<and> 0 < input_size net \<and> 0 < output_size net
      \<and> list_all (\<lambda>h. 0 < h) (hidden_layer_sizes net))"

text \<open>
  The parameters of a layer, and of a network, are of the element type in which
  \<open>nn.Linear\<close> creates them.
\<close>

definition float32_Linear :: "'a Linear \<Rightarrow> bool" where
  "float32_Linear l = (dtype (weight l) = Float32 \<and> dtype (bias l) = Float32)"

definition float32_params :: "'a Network \<Rightarrow> bool" where
  "float32_params net =
     (list_all float32_Linear (hidden_layers net) \<and> float32_Linear (output_layer net))"

text \<open>
  A tensor converted to the element type \<open>d\<close>: the same size, and the values converted
  with \<open>cast\<close> unless they are of the type \<open>d\<close> already. A layer whose two parameters are
  converted.
\<close>

definition converted :: "(dtype \<Rightarrow> dtype \<Rightarrow> 'a \<Rightarrow> 'a) \<Rightarrow> dtype \<Rightarrow> 'a tensor \<Rightarrow> 'a tensor" where
  "converted cast d t =
     t\<lparr>dtype := d,
       data := (if dtype t = d then data t else map (cast (dtype t) d) (data t))\<rparr>"

definition converted_Linear :: "(dtype \<Rightarrow> dtype \<Rightarrow> 'a \<Rightarrow> 'a) \<Rightarrow> dtype \<Rightarrow> 'a Linear \<Rightarrow> 'a Linear" where
  "converted_Linear cast d l =
     l\<lparr>weight := converted cast d (weight l), bias := converted cast d (bias l)\<rparr>"

text \<open>
  A network as it comes back from its checkpoint: the layers with every parameter
  converted to the element type of a new network, and the dropout rate and the mode of a
  new network.
\<close>

definition reloaded :: "(dtype \<Rightarrow> dtype \<Rightarrow> 'a \<Rightarrow> 'a) \<Rightarrow> 'a Network \<Rightarrow> 'a Network" where
  "reloaded cast net =
     \<lparr>hidden_layers = map (converted_Linear cast Float32) (hidden_layers net),
      output_layer = converted_Linear cast Float32 (output_layer net),
      dropout = 1 / 2,
      training = True\<rparr>"

text \<open>
  The two errors of the specification, as classes of exceptions. \<open>StructureMismatch\<close> is the
  error of \<open>load_state_dict\<close>. \<open>CorruptArtifact\<close> is raised when the source cannot be parsed as
  a valid checkpoint: the file does not deserialise, the object read is not a dictionary
  or lacks a key, a field has the wrong type, or the descriptor it holds is not one a
  network can be built from.
\<close>

fun is_StructureMismatch :: "exn \<Rightarrow> bool" where
  "is_StructureMismatch (RuntimeError msgs) = True"
| "is_StructureMismatch _ = False"

fun is_CorruptArtifact :: "exn \<Rightarrow> bool" where
  "is_CorruptArtifact UnpicklingError = True"
| "is_CorruptArtifact EOFError = True"
| "is_CorruptArtifact ArchiveError = True"
| "is_CorruptArtifact OSError = True"
| "is_CorruptArtifact (KeyError k) = True"
| "is_CorruptArtifact TypeError = True"
| "is_CorruptArtifact IndexError = True"
| "is_CorruptArtifact DimensionError = True"
| "is_CorruptArtifact _ = False"

text \<open>
  The specification's checkpoint: a descriptor of three fields (an integer, an integer, a
  sequence of integers) and a parameter set (names mapped to arrays). A file parses as a
  checkpoint when it deserialises to a dictionary with these four fields.
\<close>

record 'a Checkpoint =
  cp_input_size :: int
  cp_output_size :: int
  cp_hidden_layer_sizes :: "int list"
  cp_parameters :: "(string \<times> 'a tensor) list"

fun parse_fields ::
  "'a pyobj option \<Rightarrow> 'a pyobj option \<Rightarrow> 'a pyobj option \<Rightarrow> 'a pyobj option \<Rightarrow> 'a Checkpoint option" where
  "parse_fields (Some (PInt i)) (Some (PInt o')) (Some (PIntList hs)) (Some obj) =
     (case as_tensor_dict obj of
        None \<Rightarrow> None
      | Some sd \<Rightarrow>
          Some \<lparr>cp_input_size = i, cp_output_size = o', cp_hidden_layer_sizes = hs,
                cp_parameters = sd\<rparr>)"
| "parse_fields _ _ _ _ = None"

fun parse_checkpoint :: "'a blob \<Rightarrow> 'a Checkpoint option" where
  "parse_checkpoint (Pickled (PDict kvs)) =
     parse_fields (map_of kvs ''input_size'') (map_of kvs ''output_size'')
       (map_of kvs ''hidden_layers'') (map_of kvs ''state_dict'')"
| "parse_checkpoint _ = None"

text \<open>
  A file that holds a dictionary whose field \<open>state_dict\<close> is a dictionary, not all of
  whose values are tensors.
\<close>

fun nontensor_parameters :: "'a blob \<Rightarrow> bool" where
  "nontensor_parameters (Pickled (PDict kvs)) =
     (case map_of kvs ''state_dict'' of
        Some (PDict sd) \<Rightarrow> as_tensors (AList.clearjunk sd) = None
      | _ \<Rightarrow> False)"
| "nontensor_parameters _ = False"

text \<open>The descriptor a checkpoint holds, and the architecture of a network, as triples.\<close>

definition descriptor :: "'a Checkpoint \<Rightarrow> int \<times> int \<times> int list" where
  "descriptor cp = (cp_input_size cp, cp_output_size cp, cp_hidden_layer_sizes cp)"

definition architecture :: "'a Network \<Rightarrow> int \<times> int \<times> int list" where
  "architecture net = (input_size net, output_size net, hidden_layer_sizes net)"

text \<open>
  The dimensions of the weight matrices of a checkpoint, layer by layer: for each hidden
  layer and then for the output layer, the pair (output dimension, input dimension) of
  the matrix stored under the layer's name, if there is one.
\<close>

definition weight_dims :: "(string \<times> 'a tensor) list \<Rightarrow> string \<Rightarrow> (int \<times> int) option" where
  "weight_dims sd k =
     (case map_of sd k of
        None \<Rightarrow> None
      | Some t \<Rightarrow> (case shape t of [o', i] \<Rightarrow> Some (o', i) | _ \<Rightarrow> None))"

definition layer_dims :: "'a Checkpoint \<Rightarrow> (int \<times> int) option list" where
  "layer_dims cp =
     map (\<lambda>i. weight_dims (cp_parameters cp) (hidden_key i ''weight''))
         [0..<length (cp_hidden_layer_sizes cp)]
       @ [weight_dims (cp_parameters cp) ''output.weight'']"

text \<open>The pair (output dimension, input dimension) of a layer.\<close>

definition dims_of :: "'a Linear \<Rightarrow> int \<times> int" where
  "dims_of l = (out_features l, in_features l)"

text \<open>Two layers of the same sizes: they differ at most in the values of their parameters.\<close>

definition same_sizes :: "'a Linear \<Rightarrow> 'a Linear \<Rightarrow> bool" where
  "same_sizes l0 l =
     (in_features l0 = in_features l \<and> out_features l0 = out_features l
      \<and> shape (weight l0) = shape (weight l) \<and> shape (bias l0) = shape (bias l))"

text \<open>A layer as \<open>nn.Linear\<close> builds it for the sizes of a given layer.\<close>

definition built_like :: "'a Linear \<Rightarrow> 'a Linear \<Rightarrow> bool" where
  "built_like l0 l = (same_sizes l0 l \<and> float32_Linear l0)"

subsection \<open>Running cells\<close>

text \<open>
  The statements of the notebook that save and load, as steps on the state of the
  notebook. A step gives the exception it raises, if it raises, and the state it leaves
  behind in either case. A step that loads and raises leaves the files as they were;
  \<open>load_state_dict\<close> may have copied parameters into the model before it raises. A step
  that saves ends as \<open>how\<close> says: completed, or failed with the destination left in some
  state; the cell that builds \<open>checkpoint\<close> has assigned the variable before it saves.
\<close>

datatype 'a cell =
  SaveStateDict
| LoadStateDict
| NewModel "nat \<Rightarrow> nat \<Rightarrow> 'a" int int "int list"
| LoadIntoModel
| SaveCheckpoint
| LoadCheckpoint "nat \<Rightarrow> nat \<Rightarrow> 'a"

fun run_cell ::
  "(dtype \<Rightarrow> dtype \<Rightarrow> 'a \<Rightarrow> 'a) \<Rightarrow> 'a save_outcome \<Rightarrow> 'a cell \<Rightarrow> 'a notebook
     \<Rightarrow> exn option \<times> 'a notebook" where
  "run_cell cast how SaveStateDict s =
     (case torch_save_outcome how (tensor_dict (state_dict (var_model s))) ''checkpoint.pth''
             (files s) of
        (r, fs) \<Rightarrow> (r, s\<lparr>files := fs\<rparr>))"
| "run_cell cast how LoadStateDict s =
     (case cell_load_state_dict s of Inl e \<Rightarrow> (Some e, s) | Inr s' \<Rightarrow> (None, s'))"
| "run_cell cast how (NewModel rng i o' hs) s =
     (case cell_new_model rng i o' hs s of Inl e \<Rightarrow> (Some e, s) | Inr s' \<Rightarrow> (None, s'))"
| "run_cell cast how LoadIntoModel s =
     (case cell_load_into_model cast s of
        Inl e \<Rightarrow>
          (Some e,
           (case var_state_dict s of
              None \<Rightarrow> s
            | Some sd \<Rightarrow> s\<lparr>var_model := after_load_state_dict cast (var_model s) sd\<rparr>))
      | Inr s' \<Rightarrow> (None, s'))"
| "run_cell cast how SaveCheckpoint s =
     (let checkpoint = checkpoint_of (var_model s)
      in case torch_save_outcome how checkpoint ''checkpoint.pth'' (files s) of
           (r, fs) \<Rightarrow> (r, s\<lparr>var_checkpoint := Some checkpoint, files := fs\<rparr>))"
| "run_cell cast how (LoadCheckpoint rng) s =
     (case cell_load_checkpoint cast rng s of Inl e \<Rightarrow> (Some e, s) | Inr s' \<Rightarrow> (None, s'))"

subsection \<open>Example networks\<close>

text \<open>
  A layer of given sizes with every parameter value equal to \<open>v\<close>, of a given element type
  and of the default one.
\<close>

definition const_Linear_of :: "dtype \<Rightarrow> int \<Rightarrow> int \<Rightarrow> 'a \<Rightarrow> 'a Linear" where
  "const_Linear_of d i o' v =
     \<lparr>in_features = i, out_features = o',
      weight = \<lparr>shape = [o', i], dtype = d, data = replicate (nat (o' * i)) v\<rparr>,
      bias = \<lparr>shape = [o'], dtype = d, data = replicate (nat o') v\<rparr>\<rparr>"

definition const_Linear :: "int \<Rightarrow> int \<Rightarrow> 'a \<Rightarrow> 'a Linear" where
  "const_Linear i o' v = const_Linear_of Float32 i o' v"

text \<open>A network with two inputs, one hidden layer of one unit and two outputs.\<close>

definition small_model :: "int Network" where
  "small_model =
     \<lparr>hidden_layers =
        [\<lparr>in_features = 2, out_features = 1,
          weight = \<lparr>shape = [1, 2], dtype = Float32, data = [1, 2]\<rparr>,
          bias = \<lparr>shape = [1], dtype = Float32, data = [3]\<rparr>\<rparr>],
      output_layer =
        \<lparr>in_features = 1, out_features = 2,
         weight = \<lparr>shape = [2, 1], dtype = Float32, data = [4, 5]\<rparr>,
         bias = \<lparr>shape = [2], dtype = Float32, data = [6, 7]\<rparr>\<rparr>,
      dropout = 1 / 2,
      training = True\<rparr>"

text \<open>A network with 784 inputs, one hidden layer of two units and 10 outputs.\<close>

definition wide_model :: "int Network" where
  "wide_model =
     \<lparr>hidden_layers = [const_Linear 784 2 7],
      output_layer = const_Linear 2 10 7,
      dropout = 1 / 2,
      training = True\<rparr>"

text \<open>The same network with its parameters in double precision (\<open>model.double()\<close>).\<close>

definition double_model :: "int Network" where
  "double_model =
     \<lparr>hidden_layers = [const_Linear_of Float64 784 2 7],
      output_layer = const_Linear_of Float64 2 10 7,
      dropout = 1 / 2,
      training = True\<rparr>"

text \<open>The same network in evaluation mode (\<open>model.eval()\<close>).\<close>

definition quiet_model :: "int Network" where
  "quiet_model = eval_mode wide_model"

text \<open>\<open>Network(2, 2, [2])\<close> with every parameter zero.\<close>

definition two_unit_model :: "int Network" where
  "two_unit_model =
     \<lparr>hidden_layers = [const_Linear 2 2 0], output_layer = const_Linear 2 2 0, dropout = 1 / 2,
      training = True\<rparr>"

text \<open>A network with 784 inputs, one hidden layer of two units and three outputs.\<close>

definition three_class_model :: "int Network" where
  "three_class_model =
     \<lparr>hidden_layers = [const_Linear 784 2 7], output_layer = const_Linear 2 3 7, dropout = 1 / 2,
      training = True\<rparr>"

text \<open>The network of the notebook, \<open>Network(784, 10, [512, 256, 128])\<close>.\<close>

definition notebook_model :: "int Network" where
  "notebook_model =
     \<lparr>hidden_layers = [const_Linear 784 512 7, const_Linear 512 256 7, const_Linear 256 128 7],
      output_layer = const_Linear 128 10 7,
      dropout = 1 / 2,
      training = True\<rparr>"

text \<open>Initial values that are all zero, and the notebook before any file is written.\<close>

definition zeros :: "nat \<Rightarrow> nat \<Rightarrow> int" where
  "zeros k j = 0"

definition fresh_notebook :: "'a Network \<Rightarrow> 'a notebook" where
  "fresh_notebook net =
     \<lparr>var_model = net, var_state_dict = None, var_checkpoint = None, files = Map.empty\<rparr>"

text \<open>
  Two conversions between element types, on values counted in whole units: one that
  changes no value, and one under which single precision keeps every second value of
  double precision, so that a value in between is rounded.
\<close>

definition exact :: "dtype \<Rightarrow> dtype \<Rightarrow> int \<Rightarrow> int" where
  "exact a b v = v"

definition coarse :: "dtype \<Rightarrow> dtype \<Rightarrow> int \<Rightarrow> int" where
  "coarse a b v = (if a = Float64 \<and> b = Float32 then 2 * (v div 2) else v)"

text \<open>
  Tensor operations under which the layers pass their input on and dropout clears every
  value, one of the masks it can draw; the generator has no state.
\<close>

definition drop_all_ops :: "(int, unit) torch_ops" where
  "drop_all_ops =
     \<lparr>F_linear = (\<lambda>x w b. x),
      F_relu = (\<lambda>x. x),
      F_dropout = (\<lambda>p g x. (x\<lparr>data := map (\<lambda>v. 0) (data x)\<rparr>, g)),
      F_log_softmax = (\<lambda>x. x)\<rparr>"

text \<open>
  A file whose three descriptor fields are those of \<open>Network(2, 2, [1])\<close> and whose
  \<open>state_dict\<close> holds an integer where a tensor belongs.
\<close>

definition untyped_checkpoint :: "int blob" where
  "untyped_checkpoint =
     Pickled (PDict [(''input_size'', PInt 2),
                     (''output_size'', PInt 2),
                     (''hidden_layers'', PIntList [1]),
                     (''state_dict'', PDict [(''hidden_layers.0.weight'', PInt 5)])])"

section \<open>Properties\<close>

subsection \<open>Dictionaries of tensors\<close>

lemma map_fst_tensor_entries [simp]: "map fst (tensor_entries sd) = map fst sd"
  by (induction sd) (auto simp: tensor_entries_def)

lemma as_tensors_tensor_entries [simp]: "as_tensors (tensor_entries sd) = Some sd"
  by (induction sd) (auto simp: tensor_entries_def)

lemma as_tensor_dict_tensor_dict:
  "distinct (map fst sd) \<Longrightarrow> as_tensor_dict (tensor_dict sd) = Some sd"
  by (simp add: tensor_dict_def distinct_clearjunk_id)

lemma map_of_tensor_entries [simp]:
  "map_of (tensor_entries sd) k = map_option PTensor (map_of sd k)"
  by (induction sd) (auto simp: tensor_entries_def)

lemma getitem_tensor_dict [simp]:
  "getitem (tensor_dict sd) k =
     (case map_of sd k of None \<Rightarrow> Inl (KeyError k) | Some t \<Rightarrow> Inr (PTensor t))"
  by (simp add: tensor_dict_def split: option.splits)

lemma as_tensors_None:
  "as_tensors kvs = None \<Longrightarrow> \<exists>k v. (k, v) \<in> set kvs \<and> (\<forall>t. v \<noteq> PTensor t)"
proof (induction kvs rule: as_tensors.induct)
  case 1
  then show ?case by simp
next
  case (2 k t kvs)
  then show ?case by auto
qed auto

subsection \<open>Parameter names are distinct\<close>

lemma digit_inj: "a < 10 \<Longrightarrow> b < 10 \<Longrightarrow> digit a = digit b \<Longrightarrow> a = b"
proof -
  assume a: "a < 10" and b: "b < 10" and e: "digit a = digit b"
  have A: "a \<in> {0,1,2,3,4,5,6,7,8,9}" using a by auto
  have B: "b \<in> {0,1,2,3,4,5,6,7,8,9}" using b by auto
  show ?thesis using A B e by (auto simp: digit_def)
qed

lemma digit_not_dot: "d < 10 \<Longrightarrow> digit d \<noteq> CHR ''.'' \<and> CHR ''.'' \<noteq> digit d"
proof -
  assume "d < 10"
  then have "d \<in> {0,1,2,3,4,5,6,7,8,9}" by auto
  then show ?thesis by (auto simp: digit_def)
qed

lemma str_nat_small: "n < 10 \<Longrightarrow> str_nat n = [digit n]"
  by (subst str_nat.simps) simp

lemma str_nat_not_Nil: "str_nat n \<noteq> []"
  by (subst str_nat.simps) simp

lemma dot_notin_str_nat: "CHR ''.'' \<notin> set (str_nat n)"
proof (induction n rule: str_nat.induct)
  case (1 n)
  show ?case
  proof (cases "n < 10")
    case True
    then show ?thesis by (subst str_nat.simps) (simp add: digit_not_dot)
  next
    case False
    then show ?thesis using 1 by (subst str_nat.simps) (simp add: digit_not_dot)
  qed
qed

lemma str_nat_inj: "str_nat n = str_nat m \<Longrightarrow> n = m"
proof (induction n arbitrary: m rule: str_nat.induct)
  case (1 n)
  show ?case
  proof (cases "n < 10")
    case n: True
    show ?thesis
    proof (cases "m < 10")
      case True
      then show ?thesis using n 1(2) digit_inj by (simp add: str_nat.simps[of n] str_nat.simps[of m])
    next
      case False
      then show ?thesis using n 1(2) str_nat_not_Nil[of "m div 10"]
        by (simp add: str_nat.simps[of n] str_nat.simps[of m])
    qed
  next
    case n: False
    show ?thesis
    proof (cases "m < 10")
      case True
      then show ?thesis using n 1(2) str_nat_not_Nil[of "n div 10"]
        by (simp add: str_nat.simps[of n] str_nat.simps[of m])
    next
      case False
      then have e: "str_nat (n div 10) = str_nat (m div 10)" "digit (n mod 10) = digit (m mod 10)"
        using n 1(2) by (simp_all add: str_nat.simps[of n] str_nat.simps[of m])
      have "n div 10 = m div 10" using 1(1)[OF n e(1)] .
      moreover have "n mod 10 = m mod 10" using e(2) by (intro digit_inj) simp_all
      ultimately show ?thesis by (metis div_mult_mod_eq)
    qed
  qed
qed

lemma split_at_sep:
  "x \<notin> set a \<Longrightarrow> x \<notin> set b \<Longrightarrow> a @ x # p = b @ x # q \<Longrightarrow> a = b \<and> p = q"
proof (induction a arbitrary: b)
  case Nil
  then show ?case by (cases b) auto
next
  case (Cons y a)
  then show ?case by (cases b) auto
qed

lemma hidden_key_inj: "hidden_key i p = hidden_key j q \<longleftrightarrow> i = j \<and> p = q"
proof
  assume "hidden_key i p = hidden_key j q"
  then have "str_nat i @ CHR ''.'' # p = str_nat j @ CHR ''.'' # q"
    by (simp add: hidden_key_def)
  then have "str_nat i = str_nat j \<and> p = q"
    using split_at_sep[OF dot_notin_str_nat dot_notin_str_nat] by blast
  then show "i = j \<and> p = q" using str_nat_inj by blast
qed simp

lemma hidden_key_not_output [simp]:
  "hidden_key i p \<noteq> ''output.weight''" "hidden_key i p \<noteq> ''output.bias''"
  "''output.weight'' \<noteq> hidden_key i p" "''output.bias'' \<noteq> hidden_key i p"
  by (simp_all add: hidden_key_def)

subsection \<open>Looking parameters up in a state dict\<close>

lemma map_of_hidden_entries_output [simp]:
  "map_of (hidden_entries n ls) ''output.weight'' = None"
  "map_of (hidden_entries n ls) ''output.bias'' = None"
  by (induction ls arbitrary: n) simp_all

lemma map_of_hidden_entries:
  "map_of (hidden_entries n ls) (hidden_key i p) =
     (if n \<le> i \<and> i < n + length ls \<and> p = ''weight'' then Some (weight (ls ! (i - n)))
      else if n \<le> i \<and> i < n + length ls \<and> p = ''bias'' then Some (bias (ls ! (i - n)))
      else None)"
proof (induction ls arbitrary: n)
  case Nil
  then show ?case by simp
next
  case (Cons l ls)
  show ?case
  proof (cases "i = n")
    case True
    then show ?thesis using Cons[of "Suc n"] by (auto simp: hidden_key_inj)
  next
    case False
    then show ?thesis using Cons[of "Suc n"]
      by (auto simp: hidden_key_inj nth_Cons' Suc_diff_le)
  qed
qed

lemma map_of_state_dict_hidden:
  "map_of (state_dict net) (hidden_key i p) =
     (if i < length (hidden_layers net) \<and> p = ''weight'' then Some (weight (hidden_layers net ! i))
      else if i < length (hidden_layers net) \<and> p = ''bias'' then Some (bias (hidden_layers net ! i))
      else None)"
  by (simp add: state_dict_def map_add_def map_of_hidden_entries)

lemma map_of_state_dict_output:
  "map_of (state_dict net) ''output.weight'' = Some (weight (output_layer net))"
  "map_of (state_dict net) ''output.bias'' = Some (bias (output_layer net))"
  by (simp_all add: state_dict_def map_add_def)

lemma keys_hidden_entries:
  "map fst (hidden_entries n ls) =
     concat (map (\<lambda>i. [hidden_key i ''weight'', hidden_key i ''bias'']) [n..<n + length ls])"
proof (induction ls arbitrary: n)
  case Nil
  then show ?case by simp
next
  case (Cons l ls)
  have "[n..<n + length (l # ls)] = n # [Suc n..<Suc n + length ls]"
    by (simp add: upt_rec)
  then show ?case using Cons[of "Suc n"] by simp
qed

lemma keys_state_dict:
  "map fst (state_dict net) =
     concat (map (\<lambda>i. [hidden_key i ''weight'', hidden_key i ''bias''])
               [0..<length (hidden_layers net)]) @ [''output.weight'', ''output.bias'']"
  by (simp add: state_dict_def keys_hidden_entries)

lemma distinct_hidden_entries: "distinct (map fst (hidden_entries n ls))"
proof (induction ls arbitrary: n)
  case Nil
  then show ?case by simp
next
  case (Cons l ls)
  have "map_of (hidden_entries (Suc n) ls) (hidden_key n p) = None" for p
    by (simp add: map_of_hidden_entries)
  then have "hidden_key n p \<notin> set (map fst (hidden_entries (Suc n) ls))" for p
    by (simp add: map_of_eq_None_iff)
  then show ?case using Cons[of "Suc n"] by (simp add: hidden_key_inj)
qed

lemma distinct_state_dict: "distinct (map fst (state_dict net))"
proof -
  have "map_of (hidden_entries 0 (hidden_layers net)) k = None"
    if "k = ''output.weight'' \<or> k = ''output.bias''" for k
    using that by auto
  then have "k \<notin> set (map fst (hidden_entries 0 (hidden_layers net)))"
    if "k = ''output.weight'' \<or> k = ''output.bias''" for k
    using that by (simp add: map_of_eq_None_iff)
  then show ?thesis by (simp add: state_dict_def distinct_hidden_entries)
qed

lemma same_keys_no_missing:
  "map fst own = map fst sd \<Longrightarrow> missing_keys own sd = [] \<and> unexpected_keys own sd = []"
proof -
  assume e: "map fst own = map fst sd"
  have "\<And>k. k \<in> set (map fst own) \<Longrightarrow> map_of sd k \<noteq> None"
    using e by (metis map_of_eq_None_iff set_map)
  moreover have "\<And>k. k \<in> set (map fst sd) \<Longrightarrow> map_of own k \<noteq> None"
    using e by (metis map_of_eq_None_iff set_map)
  ultimately show ?thesis
    by (simp add: missing_keys_def unexpected_keys_def filter_empty_conv)
qed

lemma copy_problems_append:
  "copy_problems (a @ b) sd = copy_problems a sd @ copy_problems b sd"
  by (induction a sd rule: copy_problems.induct) (auto split: option.splits pyobj.splits)

lemma converted_same [simp]: "dtype t = d \<Longrightarrow> converted cast d t = t"
  by (simp add: converted_def)

lemma shape_converted [simp]: "shape (converted cast d t) = shape t"
  by (simp add: converted_def)

lemma copy_from_found:
  "map_of sd k = Some t \<Longrightarrow> shape p = shape t \<Longrightarrow> dtype p = d \<Longrightarrow>
     copy_from cast p (tensor_entries sd) k = converted cast d t"
  by (simp add: copy_from_def converted_def)

lemma assign_hidden_same:
  "list_all2 built_like ls0 ls \<Longrightarrow>
   (\<And>j. j < length ls \<Longrightarrow>
      map_of sd (hidden_key (n + j) ''weight'') = Some (weight (ls ! j))
      \<and> map_of sd (hidden_key (n + j) ''bias'') = Some (bias (ls ! j))) \<Longrightarrow>
   assign_hidden cast n ls0 (tensor_entries sd) = map (converted_Linear cast Float32) ls"
proof (induction ls0 ls arbitrary: n rule: list_all2_induct)
  case Nil
  then show ?case by simp
next
  case (Cons l0 ls0 l ls)
  have h: "map_of sd (hidden_key n ''weight'') = Some (weight l)"
          "map_of sd (hidden_key n ''bias'') = Some (bias l)"
    using Cons.prems[of 0] by simp_all
  have t: "assign_hidden cast (Suc n) ls0 (tensor_entries sd)
             = map (converted_Linear cast Float32) ls"
  proof (rule Cons.IH)
    fix j assume "j < length ls"
    then show "map_of sd (hidden_key (Suc n + j) ''weight'') = Some (weight (ls ! j))
      \<and> map_of sd (hidden_key (Suc n + j) ''bias'') = Some (bias (ls ! j))"
      using Cons.prems[of "Suc j"] by simp
  qed
  have w: "copy_from cast (weight l0) (tensor_entries sd) (hidden_key n ''weight'')
             = converted cast Float32 (weight l)"
    using Cons.hyps(1) h(1)
    by (intro copy_from_found) (simp_all add: built_like_def same_sizes_def float32_Linear_def)
  have b: "copy_from cast (bias l0) (tensor_entries sd) (hidden_key n ''bias'')
             = converted cast Float32 (bias l)"
    using Cons.hyps(1) h(2)
    by (intro copy_from_found) (simp_all add: built_like_def same_sizes_def float32_Linear_def)
  show ?case using Cons.hyps(1) t
    by (simp add: w b built_like_def same_sizes_def converted_Linear_def)
qed

lemma copy_problems_hidden_same:
  "list_all2 built_like ls0 ls \<Longrightarrow>
   (\<And>j. j < length ls \<Longrightarrow>
      map_of sd (hidden_key (n + j) ''weight'') = Some (weight (ls ! j))
      \<and> map_of sd (hidden_key (n + j) ''bias'') = Some (bias (ls ! j))) \<Longrightarrow>
   copy_problems (hidden_entries n ls0) (tensor_entries sd) = []"
proof (induction ls0 ls arbitrary: n rule: list_all2_induct)
  case Nil
  then show ?case by simp
next
  case (Cons l0 ls0 l ls)
  have h: "map_of sd (hidden_key n ''weight'') = Some (weight l)"
          "map_of sd (hidden_key n ''bias'') = Some (bias l)"
    using Cons.prems[of 0] by simp_all
  have t: "copy_problems (hidden_entries (Suc n) ls0) (tensor_entries sd) = []"
  proof (rule Cons.IH)
    fix j assume "j < length ls"
    then show "map_of sd (hidden_key (Suc n + j) ''weight'') = Some (weight (ls ! j))
      \<and> map_of sd (hidden_key (Suc n + j) ''bias'') = Some (bias (ls ! j))"
      using Cons.prems[of "Suc j"] by simp
  qed
  show ?case using Cons.hyps(1) h t
    by (simp add: built_like_def same_sizes_def)
qed

subsection \<open>What the constructor builds\<close>

lemma chained_snoc:
  "chained i (ls @ [l]) \<longleftrightarrow>
     chained i ls \<and> in_features l = (if ls = [] then i else out_features (last ls))"
  by (induction ls arbitrary: i) auto

lemma nn_Linear_sizes:
  "nn_Linear rw rb i h = Inr l \<Longrightarrow>
     in_features l = i \<and> out_features l = h \<and> wf_Linear l \<and> 0 \<le> i \<and> 0 \<le> h"
  by (auto simp: nn_Linear_def wf_Linear_def tensor_of_size_def split: if_splits)

lemma nn_Linear_same:
  "wf_Linear l \<Longrightarrow> 0 \<le> in_features l \<Longrightarrow> 0 \<le> out_features l \<Longrightarrow>
     \<exists>l0. nn_Linear rw rb (in_features l) (out_features l) = Inr l0 \<and> built_like l0 l"
  by (simp add: nn_Linear_def wf_Linear_def tensor_of_size_def same_sizes_def built_like_def
      float32_Linear_def)

lemma linears_sizes:
  "linears rng k i hs = Inr ls \<Longrightarrow>
     list_all wf_Linear ls \<and> chained i ls \<and> map out_features ls = hs"
proof (induction hs arbitrary: k i ls)
  case Nil
  then show ?case by simp
next
  case (Cons h hs)
  from Cons.prems obtain l ls' where
    l: "nn_Linear (rng (2 * k)) (rng (2 * k + 1)) i h = Inr l"
    and ls': "linears rng (Suc k) h hs = Inr ls'" and e: "ls = l # ls'"
    by (auto split: sum.splits)
  show ?case using nn_Linear_sizes[OF l] Cons.IH[OF ls'] e by simp
qed

lemma linears_total:
  "0 \<le> i \<Longrightarrow> list_all (\<lambda>h. 0 \<le> h) hs \<Longrightarrow> \<exists>ls. linears rng k i hs = Inr ls"
proof (induction hs arbitrary: k i)
  case Nil
  then show ?case by simp
next
  case (Cons h hs)
  then have h: "0 \<le> h" and hs: "list_all (\<lambda>h. 0 \<le> h) hs" by simp_all
  obtain ls where "linears rng (Suc k) h hs = Inr ls" using Cons.IH[OF h hs] by blast
  then show ?case using Cons.prems(1) h by (simp add: nn_Linear_def)
qed

lemma linears_same:
  "list_all wf_Linear ls \<Longrightarrow> chained i ls \<Longrightarrow> 0 \<le> i \<Longrightarrow>
   list_all (\<lambda>h. 0 \<le> h) (map out_features ls) \<Longrightarrow>
     \<exists>ls0. linears rng k i (map out_features ls) = Inr ls0 \<and> list_all2 built_like ls0 ls"
proof (induction ls arbitrary: k i)
  case Nil
  then show ?case by simp
next
  case (Cons l ls)
  then have wf: "wf_Linear l" and i: "in_features l = i" and o: "0 \<le> out_features l"
    by simp_all
  obtain l0 where l0: "nn_Linear (rng (2 * k)) (rng (2 * k + 1)) i (out_features l) = Inr l0"
    "built_like l0 l"
    using nn_Linear_same[OF wf, of "rng (2 * k)" "rng (2 * k + 1)"] i o Cons.prems(3) by auto
  obtain ls0 where ls0: "linears rng (Suc k) (out_features l) (map out_features ls) = Inr ls0"
    "list_all2 built_like ls0 ls"
    using Cons.IH[of "out_features l" "Suc k"] Cons.prems o by auto
  show ?case using l0 ls0 by simp
qed

lemma load_state_dict_same:
  assumes hid: "list_all2 built_like (hidden_layers m0) (hidden_layers m)"
    and out: "built_like (output_layer m0) (output_layer m)"
    and dr: "dropout m0 = 1 / 2" and tr: "training m0"
  shows "load_state_dict cast m0 (tensor_dict (state_dict m)) = Inr (reloaded cast (m :: 'a Network))"
proof -
  let ?sd = "state_dict m"
  have len: "length (hidden_layers m0) = length (hidden_layers m)"
    using hid by (rule list_all2_lengthD)
  have keys: "map fst (state_dict m0) = map fst (tensor_entries ?sd)"
    by (simp add: keys_state_dict len)
  have look: "\<And>j. j < length (hidden_layers m) \<Longrightarrow>
      map_of ?sd (hidden_key (0 + j) ''weight'') = Some (weight (hidden_layers m ! j))
      \<and> map_of ?sd (hidden_key (0 + j) ''bias'') = Some (bias (hidden_layers m ! j))"
    by (simp add: map_of_state_dict_hidden)
  have km: "missing_keys (state_dict m0) (tensor_entries ?sd) = []"
    "unexpected_keys (state_dict m0) (tensor_entries ?sd) = []"
    using same_keys_no_missing[OF keys] by simp_all
  have sm: "copy_problems (state_dict m0) (tensor_entries ?sd) = []"
    using copy_problems_hidden_same[OF hid look] out
    by (simp add: state_dict_def[of m0] copy_problems_append map_of_state_dict_output
        built_like_def same_sizes_def)
  have ah: "assign_hidden cast 0 (hidden_layers m0) (tensor_entries ?sd)
              = map (converted_Linear cast Float32) (hidden_layers m)"
    using assign_hidden_same[OF hid look] .
  have w: "copy_from cast (weight (output_layer m0)) (tensor_entries ?sd) ''output.weight''
             = converted cast Float32 (weight (output_layer m))"
    using out
    by (intro copy_from_found)
      (simp_all add: built_like_def same_sizes_def float32_Linear_def map_of_state_dict_output)
  have b: "copy_from cast (bias (output_layer m0)) (tensor_entries ?sd) ''output.bias''
             = converted cast Float32 (bias (output_layer m))"
    using out
    by (intro copy_from_found)
      (simp_all add: built_like_def same_sizes_def float32_Linear_def map_of_state_dict_output)
  have ao: "(output_layer m0)
           \<lparr>weight := copy_from cast (weight (output_layer m0)) (tensor_entries ?sd) ''output.weight'',
            bias := copy_from cast (bias (output_layer m0)) (tensor_entries ?sd) ''output.bias''\<rparr>
          = converted_Linear cast Float32 (output_layer m)"
    using out by (simp add: w b built_like_def same_sizes_def converted_Linear_def)
  have "assign_params cast m0 (tensor_entries ?sd) = reloaded cast m"
    unfolding assign_params_def ah ao reloaded_def using dr tr by simp
  then show ?thesis using km sm by (simp add: tensor_dict_def)
qed

lemma Network_of_sizes_same:
  assumes v: "valid_model m"
  shows "\<exists>m0. Network_of_sizes rng (input_size m) (output_size m) (hidden_layer_sizes m) = Inr m0
           \<and> list_all2 built_like (hidden_layers m0) (hidden_layers m)
           \<and> built_like (output_layer m0) (output_layer m)
           \<and> dropout m0 = 1 / 2 \<and> training m0"
proof -
  let ?hl = "hidden_layers m"
  from v have ne: "?hl \<noteq> []" and wfh: "list_all wf_Linear ?hl" and wfo: "wf_Linear (output_layer m)"
    and ch: "chained (input_size m) ?hl" and oin: "in_features (output_layer m) = out_features (last ?hl)"
    and pi: "0 < input_size m" and po: "0 < output_size m"
    and ph: "list_all (\<lambda>h. 0 < h) (map out_features ?hl)"
    by (simp_all add: valid_model_def chained_snoc hidden_layer_sizes_def)
  have ph0: "list_all (\<lambda>h. 0 \<le> h) (map out_features ?hl)"
    using ph by (simp add: list_all_iff) force
  obtain ls0 where ls0: "linears rng 0 (input_size m) (map out_features ?hl) = Inr ls0"
    "list_all2 built_like ls0 ?hl"
    using linears_same[OF wfh ch _ ph0, of rng 0] pi by auto
  have lastpos: "0 \<le> out_features (last ?hl)"
    using ph0 ne by (simp add: list_all_iff)
  have lastmap: "last (map out_features ?hl) = out_features (last ?hl)"
    using ne by (simp add: last_map)
  obtain l0 where l0: "nn_Linear (rng (2 * length ?hl)) (rng (2 * length ?hl + 1))
       (out_features (last ?hl)) (output_size m) = Inr l0" "built_like l0 (output_layer m)"
    using nn_Linear_same[OF wfo, of "rng (2 * length ?hl)" "rng (2 * length ?hl + 1)"]
      oin lastpos po by (auto simp: output_size_def)
  show ?thesis
    using ne ls0 l0 lastmap
    by (simp add: Network_of_sizes_def hidden_layer_sizes_def)
qed

lemma Network_of_sizes_valid:
  assumes "0 < i" "0 < out" "hs \<noteq> []" "list_all (\<lambda>h. 0 < h) hs"
  shows "\<exists>m. Network_of_sizes rng i out hs = Inr m \<and> valid_model m
           \<and> input_size m = i \<and> output_size m = out \<and> hidden_layer_sizes m = hs"
proof -
  have hs0: "list_all (\<lambda>h. 0 \<le> h) hs" using assms(4) by (simp add: list_all_iff) force
  obtain ls where ls: "linears rng 0 i hs = Inr ls" using linears_total[OF _ hs0, of i rng 0] assms(1) by auto
  note s = linears_sizes[OF ls]
  have ne: "ls \<noteq> []" using s assms(3) by auto
  have lastpos: "0 \<le> last hs" using hs0 assms(3) by (simp add: list_all_iff)
  obtain l where l: "nn_Linear (rng (2 * length hs)) (rng (2 * length hs + 1)) (last hs) out = Inr l"
    using lastpos assms(2) by (simp add: nn_Linear_def)
  note t = nn_Linear_sizes[OF l]
  have lastls: "out_features (last ls) = last hs"
    using s ne by (metis last_map)
  let ?m = "\<lparr>hidden_layers = ls, output_layer = l, dropout = 1 / 2, training = True\<rparr>"
  have res: "Network_of_sizes rng i out hs = Inr ?m"
    using assms(3) ls l by (simp add: Network_of_sizes_def)
  have inp: "input_size ?m = i"
    using s ne by (cases ls) (auto simp: input_size_def)
  have "valid_model ?m"
    unfolding valid_model_def inp
    using assms s t ne lastls
    by (simp add: output_size_def hidden_layer_sizes_def chained_snoc)
  moreover have "output_size ?m = out" "hidden_layer_sizes ?m = hs"
    using s t by (simp_all add: output_size_def hidden_layer_sizes_def)
  ultimately show ?thesis using res inp by blast
qed

lemma roundtrip:
  assumes v: "valid_model m" and i: "input_size m = 784" and o: "output_size m = 10"
  shows "load_checkpoint cast rng f (torch_save (checkpoint_of m) f fs) = Inr (reloaded cast m)"
proof -
  obtain m0 where m0: "Network_of_sizes rng 784 10 (map out_features (hidden_layers m)) = Inr m0"
    and same: "list_all2 built_like (hidden_layers m0) (hidden_layers m)"
      "built_like (output_layer m0) (output_layer m)" "dropout m0 = 1 / 2" "training m0"
    using Network_of_sizes_same[OF v, of rng] i o by (auto simp: hidden_layer_sizes_def)
  show ?thesis
    using m0 load_state_dict_same[OF same, of cast]
    by (simp add: load_checkpoint_def torch_load_def torch_save_def checkpoint_of_def)
qed

lemma copy_problems_found:
  "(k, p) \<in> set own \<Longrightarrow> map_of sd k = Some (PTensor t) \<Longrightarrow> shape t \<noteq> shape p \<Longrightarrow>
     copy_problems own sd \<noteq> []"
  by (induction own sd rule: copy_problems.induct) (auto split: option.splits pyobj.splits)

lemma copy_problems_nontensor:
  "(k, p) \<in> set own \<Longrightarrow> map_of sd k = Some v \<Longrightarrow> \<forall>t. v \<noteq> PTensor t \<Longrightarrow>
     copy_problems own sd \<noteq> []"
  by (induction own sd rule: copy_problems.induct) (auto split: option.splits pyobj.splits)

lemma hidden_entries_mem:
  "j < length ls \<Longrightarrow> (hidden_key (n + j) ''bias'', bias (ls ! j)) \<in> set (hidden_entries n ls)"
proof (induction ls arbitrary: n j)
  case Nil
  then show ?case by simp
next
  case (Cons l ls)
  show ?case
  proof (cases j)
    case 0
    then show ?thesis by simp
  next
    case (Suc j')
    then show ?thesis using Cons.IH[of j' "Suc n"] Cons.prems by simp
  qed
qed

lemma load_state_dict_mismatch:
  assumes wf: "list_all wf_Linear (hidden_layers m)"
    and wf2: "list_all wf_Linear (hidden_layers m2)"
    and ne: "hidden_layer_sizes m2 \<noteq> hidden_layer_sizes m"
  shows "\<exists>msgs. msgs \<noteq> []
           \<and> load_state_dict cast m2 (tensor_dict (state_dict m)) = Inl (RuntimeError msgs)"
proof -
  let ?own = "state_dict m2" and ?sd = "state_dict m"
  let ?n2 = "length (hidden_layers m2)" and ?n = "length (hidden_layers m)"
  have "map MissingKey (missing_keys ?own (tensor_entries ?sd))
          @ map UnexpectedKey (unexpected_keys ?own (tensor_entries ?sd))
          @ copy_problems ?own (tensor_entries ?sd) \<noteq> []"
  proof (cases "?n2 = ?n")
    case len: True
    have "map out_features (hidden_layers m2) \<noteq> map out_features (hidden_layers m)"
      using ne by (simp add: hidden_layer_sizes_def)
    then obtain j where j: "j < ?n" "out_features (hidden_layers m2 ! j) \<noteq> out_features (hidden_layers m ! j)"
      using len by (auto simp: list_eq_iff_nth_eq)
    have s2: "shape (bias (hidden_layers m2 ! j)) = [out_features (hidden_layers m2 ! j)]"
      using wf2 j(1) len by (simp add: list_all_length wf_Linear_def tensor_of_size_def)
    have s: "shape (bias (hidden_layers m ! j)) = [out_features (hidden_layers m ! j)]"
      using wf j(1) by (simp add: list_all_length wf_Linear_def tensor_of_size_def)
    have mem: "(hidden_key j ''bias'', bias (hidden_layers m2 ! j)) \<in> set ?own"
      using hidden_entries_mem[of j "hidden_layers m2" 0] j(1) len by (simp add: state_dict_def)
    have look: "map_of (tensor_entries ?sd) (hidden_key j ''bias'')
                  = Some (PTensor (bias (hidden_layers m ! j)))"
      using j(1) by (simp add: map_of_state_dict_hidden)
    have "copy_problems ?own (tensor_entries ?sd) \<noteq> []"
      using copy_problems_found[OF mem look] s s2 j(2) by simp
    then show ?thesis by simp
  next
    case False
    then consider "?n < ?n2" | "?n2 < ?n" by linarith
    then show ?thesis
    proof cases
      case 1
      have "hidden_key ?n ''weight'' \<in> set (map fst ?own)"
        using 1 by (simp add: keys_state_dict) force
      moreover have "map_of (tensor_entries ?sd) (hidden_key ?n ''weight'') = None"
        by (simp add: map_of_state_dict_hidden)
      ultimately have "missing_keys ?own (tensor_entries ?sd) \<noteq> []"
        unfolding missing_keys_def filter_empty_conv by blast
      then show ?thesis by simp
    next
      case 2
      have "hidden_key ?n2 ''weight'' \<in> set (map fst (tensor_entries ?sd))"
        using 2 by (simp add: keys_state_dict) force
      moreover have "map_of ?own (hidden_key ?n2 ''weight'') = None"
        by (simp add: map_of_state_dict_hidden)
      ultimately have "unexpected_keys ?own (tensor_entries ?sd) \<noteq> []"
        unfolding unexpected_keys_def filter_empty_conv by blast
      then show ?thesis by simp
    qed
  qed
  then show ?thesis by (simp add: Let_def tensor_dict_def)
qed

lemma load_state_dict_nontensor:
  assumes "as_tensors (AList.clearjunk sd) = None"
  shows "\<exists>msgs. load_state_dict cast m (PDict sd) = Inl (RuntimeError msgs)"
proof -
  obtain k v where kv: "(k, v) \<in> set (AList.clearjunk sd)" and nt: "\<forall>t. v \<noteq> PTensor t"
    using as_tensors_None[OF assms] by blast
  have look: "map_of sd k = Some v"
    using map_of_is_SomeI[OF distinct_clearjunk kv] by (simp add: map_of_clearjunk)
  then have mem: "k \<in> set (map fst sd)"
    by (metis map_of_eq_None_iff option.distinct(1) set_map)
  have "map UnexpectedKey (unexpected_keys (state_dict m) sd) @ copy_problems (state_dict m) sd \<noteq> []"
  proof (cases "map_of (state_dict m) k")
    case None
    then have "unexpected_keys (state_dict m) sd \<noteq> []"
      using mem unfolding unexpected_keys_def filter_empty_conv by blast
    then show ?thesis by simp
  next
    case (Some p)
    then have "(k, p) \<in> set (state_dict m)" by (rule map_of_SomeD)
    then have "copy_problems (state_dict m) sd \<noteq> []"
      using copy_problems_nontensor[OF _ look nt] by blast
    then show ?thesis by simp
  qed
  then show ?thesis by (simp add: Let_def)
qed

subsection \<open>The example networks are valid\<close>

lemma valid_small_model: "valid_model small_model"
  by (simp add: small_model_def valid_model_def wf_Linear_def tensor_of_size_def
      input_size_def output_size_def hidden_layer_sizes_def)

lemma wf_const_Linear_of: "0 \<le> i \<Longrightarrow> 0 \<le> h \<Longrightarrow> wf_Linear (const_Linear_of d i h v)"
  by (simp add: const_Linear_of_def wf_Linear_def tensor_of_size_def)

lemma wf_const_Linear: "0 \<le> i \<Longrightarrow> 0 \<le> h \<Longrightarrow> wf_Linear (const_Linear i h v)"
  by (simp add: const_Linear_def wf_const_Linear_of)

lemma const_Linear_of_features [simp]:
  "in_features (const_Linear_of d i h v) = i" "out_features (const_Linear_of d i h v) = h"
  by (simp_all add: const_Linear_of_def)

lemma const_Linear_features [simp]:
  "in_features (const_Linear i h v) = i" "out_features (const_Linear i h v) = h"
  by (simp_all add: const_Linear_def)

lemma float32_const_Linear [simp]: "float32_Linear (const_Linear i h v)"
  by (simp add: const_Linear_def const_Linear_of_def float32_Linear_def)

lemma valid_wide_model: "valid_model wide_model"
  by (simp add: wide_model_def valid_model_def wf_const_Linear
      input_size_def output_size_def hidden_layer_sizes_def)

lemma valid_double_model: "valid_model double_model"
  by (simp add: double_model_def valid_model_def wf_const_Linear_of
      input_size_def output_size_def hidden_layer_sizes_def)

lemma valid_quiet_model: "valid_model quiet_model"
  by (simp add: quiet_model_def eval_mode_def wide_model_def valid_model_def wf_const_Linear
      input_size_def output_size_def hidden_layer_sizes_def)

lemma valid_three_class_model: "valid_model three_class_model"
  by (simp add: three_class_model_def valid_model_def wf_const_Linear
      input_size_def output_size_def hidden_layer_sizes_def)

lemma valid_notebook_model: "valid_model notebook_model"
  by (simp add: notebook_model_def valid_model_def wf_const_Linear
      input_size_def output_size_def hidden_layer_sizes_def)

subsection \<open>What a load gives back\<close>

lemma hidden_layer_sizes_reloaded [simp]:
  "hidden_layer_sizes (reloaded cast m) = hidden_layer_sizes m"
  by (simp add: reloaded_def hidden_layer_sizes_def converted_Linear_def comp_def)

lemma input_size_reloaded [simp]: "input_size (reloaded cast m) = input_size m"
  by (cases "hidden_layers m") (simp_all add: reloaded_def input_size_def converted_Linear_def)

lemma output_size_reloaded [simp]: "output_size (reloaded cast m) = output_size m"
  by (simp add: reloaded_def output_size_def converted_Linear_def)

lemma architecture_reloaded [simp]: "architecture (reloaded cast m) = architecture m"
  by (simp add: architecture_def)

lemma hidden_entries_converted:
  "hidden_entries n (map (converted_Linear cast d) ls)
     = map (\<lambda>(k, t). (k, converted cast d t)) (hidden_entries n ls)"
  by (induction ls arbitrary: n) (simp_all add: converted_Linear_def)

lemma state_dict_reloaded:
  "state_dict (reloaded cast m) = map (\<lambda>(k, t). (k, converted cast Float32 t)) (state_dict m)"
  by (simp add: state_dict_def reloaded_def hidden_entries_converted converted_Linear_def)

lemma converted_Linear_same: "float32_Linear l \<Longrightarrow> converted_Linear cast Float32 l = l"
  by (simp add: converted_Linear_def float32_Linear_def)

lemma reloaded_float32:
  assumes "float32_params m"
  shows "reloaded cast m = m\<lparr>dropout := 1 / 2, training := True\<rparr>"
proof -
  have "map (converted_Linear cast Float32) (hidden_layers m) = hidden_layers m"
    using assms by (intro map_idI) (simp add: float32_params_def list_all_iff converted_Linear_same)
  moreover have "converted_Linear cast Float32 (output_layer m) = output_layer m"
    using assms by (simp add: float32_params_def converted_Linear_same)
  ultimately show ?thesis by (simp add: reloaded_def)
qed

lemma state_dict_layers:
  "hidden_layers a = hidden_layers b \<Longrightarrow> output_layer a = output_layer b \<Longrightarrow>
     state_dict a = state_dict b"
  by (simp add: state_dict_def)

lemma hidden_forward_mode:
  "training a = training b \<Longrightarrow> (training a \<Longrightarrow> dropout a = dropout b) \<Longrightarrow>
     hidden_forward ops a ls x g = hidden_forward ops b ls x g"
  by (induction ls arbitrary: x g) (auto simp: dropout_forward_def split: prod.splits)

lemma forward_layers:
  "hidden_layers a = hidden_layers b \<Longrightarrow> output_layer a = output_layer b \<Longrightarrow>
   training a = training b \<Longrightarrow> (training a \<Longrightarrow> dropout a = dropout b) \<Longrightarrow>
     forward ops g a x = forward ops g b x"
  using hidden_forward_mode[of a b ops "hidden_layers b" x g] by (simp add: forward_def)

subsection \<open>Further facts about saving and loading\<close>

lemma Network_of_sizes_hidden:
  assumes "Network_of_sizes rng i out hs = Inr m"
  shows "list_all wf_Linear (hidden_layers m) \<and> hidden_layer_sizes m = hs"
proof -
  from assms obtain ls l where ls: "linears rng 0 i hs = Inr ls"
    and m: "m = \<lparr>hidden_layers = ls, output_layer = l, dropout = 1 / 2, training = True\<rparr>"
    by (auto simp: Network_of_sizes_def split: if_splits sum.splits)
  show ?thesis using linears_sizes[OF ls] m by (simp add: hidden_layer_sizes_def)
qed

lemma linears_error: "linears rng k i hs = Inl e \<Longrightarrow> e = DimensionError"
proof (induction hs arbitrary: k i)
  case Nil
  then show ?case by simp
next
  case (Cons h hs)
  then show ?case
    by (auto simp: nn_Linear_def split: sum.splits if_splits)
qed

lemma Network_of_sizes_error:
  "Network_of_sizes rng i out hs = Inl e \<Longrightarrow> e = IndexError \<or> e = DimensionError"
  by (auto simp: Network_of_sizes_def nn_Linear_def dest: linears_error split: sum.splits if_splits)

lemma fc_model_Network_error:
  "fc_model_Network rng a b c = Inl e \<Longrightarrow> is_CorruptArtifact e"
  by (erule fc_model_Network.elims) (auto dest: Network_of_sizes_error[OF sym])

lemma fc_model_Network_typed:
  "fc_model_Network rng a b c = Inr m \<Longrightarrow> \<exists>i out hs. a = PInt i \<and> b = PInt out \<and> c = PIntList hs"
  by (erule fc_model_Network.elims) auto

lemma load_state_dict_untyped:
  "as_tensor_dict obj = None \<Longrightarrow>
     load_state_dict cast m obj = Inl TypeError
     \<or> (\<exists>sd msgs. obj = PDict sd \<and> as_tensors (AList.clearjunk sd) = None
           \<and> load_state_dict cast m obj = Inl (RuntimeError msgs))"
proof (cases obj)
  case (PDict sd)
  assume "as_tensor_dict obj = None"
  then have "as_tensors (AList.clearjunk sd) = None" using PDict by simp
  then show ?thesis using load_state_dict_nontensor[of sd cast m] PDict by blast
qed simp_all

lemma load_state_dict_after:
  "load_state_dict cast net obj = Inr m \<Longrightarrow> m = after_load_state_dict cast net obj"
  by (cases obj) (auto simp: Let_def split: if_splits)

lemma saved_file:
  "files (cell_save_checkpoint s) ''checkpoint.pth'' = Some (Pickled (checkpoint_of (var_model s)))"
  by (simp add: cell_save_checkpoint_def Let_def torch_save_def)

lemma parse_saved:
  "parse_checkpoint (Pickled (checkpoint_of m)) =
     Some \<lparr>cp_input_size = 784, cp_output_size = 10,
           cp_hidden_layer_sizes = hidden_layer_sizes m, cp_parameters = state_dict m\<rparr>"
  by (simp add: checkpoint_of_def hidden_layer_sizes_def as_tensor_dict_tensor_dict
      distinct_state_dict)

lemma load_from_artifact:
  assumes "valid_model m" and "input_size m = 784" and "output_size m = 10"
    and "fs f = Some (Pickled (checkpoint_of m))"
  shows "load_checkpoint cast rng f fs = Inr (reloaded cast m)"
proof -
  have "torch_load f fs = torch_load f (torch_save (checkpoint_of m) f fs)"
    using assms(4) by (simp add: torch_load_def torch_save_def)
  then have "load_checkpoint cast rng f fs
               = load_checkpoint cast rng f (torch_save (checkpoint_of m) f fs)"
    by (simp add: load_checkpoint_def)
  then show ?thesis using roundtrip[OF assms(1-3)] by simp
qed

lemma valid_sizes:
  assumes "valid_model m"
  shows "0 < input_size m" "0 < output_size m" "hidden_layer_sizes m \<noteq> []"
    "list_all (\<lambda>h. 0 < h) (hidden_layer_sizes m)"
  using assms by (simp_all add: valid_model_def hidden_layer_sizes_def)

lemma chained_nth:
  "chained i ls \<Longrightarrow> Suc j < length ls \<Longrightarrow> out_features (ls ! j) = in_features (ls ! Suc j)"
proof (induction ls arbitrary: i j)
  case Nil
  then show ?case by simp
next
  case (Cons l ls)
  show ?case
  proof (cases j)
    case 0
    then show ?thesis using Cons.prems by (cases ls) auto
  next
    case (Suc j')
    then show ?thesis using Cons.IH[of "out_features l" j'] Cons.prems by simp
  qed
qed

lemma weight_dims_hidden:
  "list_all wf_Linear (hidden_layers m) \<Longrightarrow> i < length (hidden_layers m) \<Longrightarrow>
     weight_dims (state_dict m) (hidden_key i ''weight'')
       = Some (out_features (hidden_layers m ! i), in_features (hidden_layers m ! i))"
  by (simp add: weight_dims_def map_of_state_dict_hidden list_all_length wf_Linear_def
      tensor_of_size_def)

lemma weight_dims_output:
  "wf_Linear (output_layer m) \<Longrightarrow>
     weight_dims (state_dict m) ''output.weight''
       = Some (out_features (output_layer m), in_features (output_layer m))"
  by (simp add: weight_dims_def map_of_state_dict_output wf_Linear_def tensor_of_size_def)

lemma layer_dims_saved:
  assumes "list_all wf_Linear (hidden_layers m)" and "wf_Linear (output_layer m)"
  shows "layer_dims \<lparr>cp_input_size = a, cp_output_size = b,
           cp_hidden_layer_sizes = hidden_layer_sizes m, cp_parameters = state_dict m\<rparr>
         = map Some (map dims_of (hidden_layers m @ [output_layer m]))"
proof -
  have "map (\<lambda>i. weight_dims (state_dict m) (hidden_key i ''weight'')) [0..<length (hidden_layers m)]
        = map Some (map dims_of (hidden_layers m))"
    using assms(1) by (intro nth_equalityI) (simp_all add: weight_dims_hidden dims_of_def)
  then show ?thesis
    using assms(2) by (simp add: layer_dims_def hidden_layer_sizes_def weight_dims_output dims_of_def)
qed

lemma first_weight_shape:
  assumes "valid_model m"
  shows "\<exists>l ls. hidden_layers m = l # ls
           \<and> shape (weight l) = [hd (hidden_layer_sizes m), input_size m]"
proof -
  from assms obtain l ls where e: "hidden_layers m = l # ls"
    by (cases "hidden_layers m") (auto simp: valid_model_def)
  then have "wf_Linear l" using assms by (simp add: valid_model_def)
  then show ?thesis using e
    by (simp add: wf_Linear_def tensor_of_size_def hidden_layer_sizes_def input_size_def)
qed

lemma constructed_notebook_model:
  "\<exists>m. fc_model_Network rng (PInt 784) (PInt 10) (PIntList [512, 256, 128]) = Inr m
       \<and> valid_model m \<and> architecture m = (784, 10, [512, 256, 128])"
  using Network_of_sizes_valid[of 784 10 "[512, 256, 128]" rng]
  by (auto simp: architecture_def)

lemma load_state_dict_sizes_differ:
  assumes v: "valid_model m" and v0: "valid_model m0"
    and h: "hidden_layer_sizes m0 = hidden_layer_sizes m"
    and d: "input_size m0 \<noteq> input_size m \<or> output_size m0 \<noteq> output_size m"
  shows "\<exists>msgs. load_state_dict cast m0 (tensor_dict (state_dict m)) = Inl (RuntimeError msgs)"
proof -
  let ?own = "state_dict m0" and ?sd = "state_dict m"
  obtain l ls where m: "hidden_layers m = l # ls" and wl: "wf_Linear l"
    using v by (cases "hidden_layers m") (auto simp: valid_model_def)
  obtain l0 ls0 where m0: "hidden_layers m0 = l0 # ls0" and wl0: "wf_Linear l0"
    using v0 by (cases "hidden_layers m0") (auto simp: valid_model_def)
  have wo: "wf_Linear (output_layer m)" and wo0: "wf_Linear (output_layer m0)"
    using v v0 by (simp_all add: valid_model_def)
  have "copy_problems ?own (tensor_entries ?sd) \<noteq> []"
    using d
  proof
    assume "input_size m0 \<noteq> input_size m"
    then have ne: "shape (weight l) \<noteq> shape (weight l0)"
      using m m0 wl wl0 by (simp add: input_size_def wf_Linear_def tensor_of_size_def)
    have mem: "(hidden_key 0 ''weight'', weight l0) \<in> set ?own"
      using m0 by (simp add: state_dict_def)
    have look: "map_of (tensor_entries ?sd) (hidden_key 0 ''weight'') = Some (PTensor (weight l))"
      using m by (simp add: map_of_state_dict_hidden)
    show ?thesis using copy_problems_found[OF mem look ne] .
  next
    assume "output_size m0 \<noteq> output_size m"
    then have ne: "shape (bias (output_layer m)) \<noteq> shape (bias (output_layer m0))"
      using wo wo0 by (simp add: output_size_def wf_Linear_def tensor_of_size_def)
    have mem: "(''output.bias'', bias (output_layer m0)) \<in> set ?own"
      by (simp add: state_dict_def)
    have look: "map_of (tensor_entries ?sd) ''output.bias'' = Some (PTensor (bias (output_layer m)))"
      by (simp add: map_of_state_dict_output)
    show ?thesis using copy_problems_found[OF mem look ne] .
  qed
  then show ?thesis by (simp add: Let_def tensor_dict_def)
qed

lemma load_saved_other_sizes:
  assumes v: "valid_model m" and d: "input_size m \<noteq> 784 \<or> output_size m \<noteq> 10"
    and f: "fs f = Some (Pickled (checkpoint_of m))"
  shows "\<exists>msgs. load_checkpoint cast rng f fs = Inl (RuntimeError msgs)"
proof -
  obtain m0 where m0: "Network_of_sizes rng 784 10 (hidden_layer_sizes m) = Inr m0"
    and v0: "valid_model m0" and a: "input_size m0 = 784" "output_size m0 = 10"
      "hidden_layer_sizes m0 = hidden_layer_sizes m"
    using Network_of_sizes_valid[of 784 10 "hidden_layer_sizes m" rng] valid_sizes[OF v] by auto
  obtain msgs where "load_state_dict cast m0 (tensor_dict (state_dict m)) = Inl (RuntimeError msgs)"
    using load_state_dict_sizes_differ[OF v v0 a(3), of cast] d a(1,2) by auto
  then show ?thesis
    using m0 f
    by (simp add: load_checkpoint_def torch_load_def checkpoint_of_def hidden_layer_sizes_def)
qed

lemma load_checkpoint_files:
  "cell_load_checkpoint cast rng s = Inr s' \<Longrightarrow> files s' = files s"
  by (auto simp: cell_load_checkpoint_def split: sum.splits)

lemma load_state_dict_files:
  "cell_load_state_dict s = Inr s' \<Longrightarrow> files s' = files s"
  by (auto simp: cell_load_state_dict_def split: sum.splits)

lemma new_model_files:
  "cell_new_model rng i out hs s = Inr s' \<Longrightarrow> files s' = files s"
  by (auto simp: cell_new_model_def split: sum.splits)

lemma load_into_model_files:
  "cell_load_into_model cast s = Inr s' \<Longrightarrow> files s' = files s"
  by (auto simp: cell_load_into_model_def split: sum.splits option.splits)

lemma run_cell_completed:
  "run_cell cast Completed SaveStateDict s = (None, cell_save_state_dict s)"
  "run_cell cast Completed SaveCheckpoint s = (None, cell_save_checkpoint s)"
  by (simp_all add: cell_save_state_dict_def cell_save_checkpoint_def Let_def)

section \<open>The claims\<close>

text \<open>
  C1 (round trip), as the code has it. The checkpoint cell writes the literal sizes \<open>784\<close>
  and \<open>10\<close>, and \<open>load_checkpoint\<close> gives a new network: its parameters are of the default
  element type, its dropout rate is \<open>0.5\<close> and it is in training mode. So the round trip
  holds for the valid models of that input and output size whose parameters are of the
  default element type: loading the checkpoint that the cell saved gives a model with the
  same architecture fields and the same parameters under the same names, whatever the
  conversion between element types and the initial values of the new network are. The
  forward computation of the two models agrees on every input once both are put in
  evaluation mode; as they stand it agrees when the saved model is itself in training
  mode with dropout rate \<open>0.5\<close> and the generator is in the same state.
\<close>

theorem roundtrip_784_10:
  assumes "valid_model (var_model (s :: 'a notebook))"
    and "input_size (var_model s) = 784" and "output_size (var_model s) = 10"
    and "float32_params (var_model s)"
  shows "\<exists>M'. load_checkpoint cast rng ''checkpoint.pth'' (files (cell_save_checkpoint s)) = Inr M'
           \<and> input_size M' = input_size (var_model s)
           \<and> output_size M' = output_size (var_model s)
           \<and> hidden_layer_sizes M' = hidden_layer_sizes (var_model s)
           \<and> state_dict M' = state_dict (var_model s)
           \<and> dropout M' = 1 / 2 \<and> training M'
           \<and> (\<forall>(ops :: ('a, 'g) torch_ops) g x.
                 forward ops g (eval_mode M') x = forward ops g (eval_mode (var_model s)) x)
           \<and> (dropout (var_model s) = 1 / 2 \<and> training (var_model s) \<longrightarrow>
                (\<forall>(ops :: ('a, 'g) torch_ops) g x.
                   forward ops g M' x = forward ops g (var_model s) x))"
proof -
  let ?m = "var_model s"
  let ?M = "?m\<lparr>dropout := 1 / 2, training := True\<rparr>"
  have r: "load_checkpoint cast rng ''checkpoint.pth'' (files (cell_save_checkpoint s))
             = Inr (reloaded cast ?m)"
    using load_from_artifact[of ?m "files (cell_save_checkpoint s)" "''checkpoint.pth''" cast rng,
        OF assms(1-3) saved_file] .
  have e: "reloaded cast ?m = ?M"
    using reloaded_float32[OF assms(4)] .
  have a: "input_size ?M = input_size ?m" "output_size ?M = output_size ?m"
    "hidden_layer_sizes ?M = hidden_layer_sizes ?m" "state_dict ?M = state_dict ?m"
    "dropout ?M = 1 / 2" "training ?M"
    by (simp_all add: input_size_def output_size_def hidden_layer_sizes_def state_dict_def
        split: list.splits)
  have fe: "\<forall>(ops :: ('a, 'g) torch_ops) g x.
              forward ops g (eval_mode ?M) x = forward ops g (eval_mode ?m) x"
    by (intro allI forward_layers) (simp_all add: eval_mode_def)
  have ft: "dropout ?m = 1 / 2 \<and> training ?m \<longrightarrow>
              (\<forall>(ops :: ('a, 'g) torch_ops) g x. forward ops g ?M x = forward ops g ?m x)"
    by (intro impI allI forward_layers) simp_all
  show ?thesis
    unfolding r e using a fe ft by (intro exI[of _ ?M]) blast
qed

theorem roundtrip_784_10_witness:
  "valid_model (var_model (fresh_notebook wide_model))
   \<and> input_size (var_model (fresh_notebook wide_model)) = 784
   \<and> output_size (var_model (fresh_notebook wide_model)) = 10
   \<and> float32_params (var_model (fresh_notebook wide_model))
   \<and> (\<exists>M'. load_checkpoint exact zeros ''checkpoint.pth''
               (files (cell_save_checkpoint (fresh_notebook wide_model))) = Inr M'
           \<and> input_size M' = input_size (var_model (fresh_notebook wide_model))
           \<and> output_size M' = output_size (var_model (fresh_notebook wide_model))
           \<and> hidden_layer_sizes M' = hidden_layer_sizes (var_model (fresh_notebook wide_model))
           \<and> state_dict M' = state_dict (var_model (fresh_notebook wide_model))
           \<and> dropout M' = 1 / 2 \<and> training M'
           \<and> (\<forall>(ops :: (int, unit) torch_ops) g x.
                 forward ops g (eval_mode M') x
                   = forward ops g (eval_mode (var_model (fresh_notebook wide_model))) x)
           \<and> (\<forall>(ops :: (int, unit) torch_ops) g x.
                 forward ops g M' x = forward ops g (var_model (fresh_notebook wide_model)) x))"
proof -
  have v: "valid_model (var_model (fresh_notebook wide_model))"
    by (simp add: fresh_notebook_def valid_wide_model)
  have i: "input_size (var_model (fresh_notebook wide_model)) = 784"
    by (simp add: fresh_notebook_def wide_model_def input_size_def)
  have o: "output_size (var_model (fresh_notebook wide_model)) = 10"
    by (simp add: fresh_notebook_def wide_model_def output_size_def)
  have f: "float32_params (var_model (fresh_notebook wide_model))"
    by (simp add: fresh_notebook_def wide_model_def float32_params_def)
  have d: "dropout (var_model (fresh_notebook wide_model)) = 1 / 2
           \<and> training (var_model (fresh_notebook wide_model))"
    by (simp add: fresh_notebook_def wide_model_def)
  show ?thesis
    using roundtrip_784_10[where 'g = unit, OF v i o f, of exact zeros] v i o f d by blast
qed

text \<open>
  The round trip fails in three ways. For a valid model of another input size the network
  that \<open>load_checkpoint\<close> builds has 784 inputs and 10 outputs, and \<open>load_state_dict\<close>
  refuses the saved parameters. For a valid model with 784 inputs and 10 outputs whose
  parameters are in double precision, the loaded model has them in single precision, with
  the values the conversion gives. And for a valid model with 784 inputs and 10 outputs
  in evaluation mode, the loaded model is in training mode: on the same input, with
  the same tensor operations, it drops values that the saved model keeps.
\<close>

theorem roundtrip_fails_counterexample:
  "valid_model small_model
   \<and> architecture small_model = (2, 2, [1])
   \<and> load_checkpoint exact zeros ''checkpoint.pth''
       (files (cell_save_checkpoint (fresh_notebook small_model)))
     = Inl (RuntimeError
        [SizeMismatch ''hidden_layers.0.weight'' [1, 784] [1, 2],
         SizeMismatch ''output.weight'' [10, 1] [2, 1],
         SizeMismatch ''output.bias'' [10] [2]])
   \<and> valid_model double_model
   \<and> architecture double_model = (784, 10, [2])
   \<and> bias (output_layer double_model)
       = \<lparr>shape = [10], dtype = Float64, data = [7, 7, 7, 7, 7, 7, 7, 7, 7, 7]\<rparr>
   \<and> map_sum id (\<lambda>M'. bias (output_layer M'))
       (load_checkpoint coarse zeros ''checkpoint.pth''
          (files (cell_save_checkpoint (fresh_notebook double_model))))
     = Inr \<lparr>shape = [10], dtype = Float32, data = [6, 6, 6, 6, 6, 6, 6, 6, 6, 6]\<rparr>
   \<and> valid_model quiet_model
   \<and> architecture quiet_model = (784, 10, [2])
   \<and> float32_params quiet_model
   \<and> map_sum id (\<lambda>M'. (state_dict M' = state_dict quiet_model, training M', training quiet_model))
       (load_checkpoint exact zeros ''checkpoint.pth''
          (files (cell_save_checkpoint (fresh_notebook quiet_model))))
     = Inr (True, True, False)
   \<and> map_sum id (\<lambda>M'. forward drop_all_ops () M' \<lparr>shape = [1], dtype = Float32, data = [1]\<rparr>)
       (load_checkpoint exact zeros ''checkpoint.pth''
          (files (cell_save_checkpoint (fresh_notebook quiet_model))))
     = Inr (\<lparr>shape = [1], dtype = Float32, data = [0]\<rparr>, ())
   \<and> forward drop_all_ops () quiet_model \<lparr>shape = [1], dtype = Float32, data = [1]\<rparr>
     = (\<lparr>shape = [1], dtype = Float32, data = [1]\<rparr>, ())"
proof -
  have s: "valid_model small_model \<and> architecture small_model = (2, 2, [1])
     \<and> load_checkpoint exact zeros ''checkpoint.pth''
       (files (cell_save_checkpoint (fresh_notebook small_model)))
     = Inl (RuntimeError
        [SizeMismatch ''hidden_layers.0.weight'' [1, 784] [1, 2],
         SizeMismatch ''output.weight'' [10, 1] [2, 1],
         SizeMismatch ''output.bias'' [10] [2]])"
    by code_simp
  have da: "architecture double_model = (784, 10, [2])"
    by (simp add: double_model_def architecture_def input_size_def output_size_def
        hidden_layer_sizes_def)
  have db: "bias (output_layer double_model)
       = \<lparr>shape = [10], dtype = Float64, data = [7, 7, 7, 7, 7, 7, 7, 7, 7, 7]\<rparr>"
    by (simp add: double_model_def const_Linear_of_def numeral_eq_Suc)
  have dl: "load_checkpoint coarse zeros ''checkpoint.pth''
          (files (cell_save_checkpoint (fresh_notebook double_model)))
        = Inr (reloaded coarse double_model)"
    using load_from_artifact[of double_model
        "files (cell_save_checkpoint (fresh_notebook double_model))" "''checkpoint.pth''"
        coarse zeros, OF valid_double_model] da saved_file[of "fresh_notebook double_model"]
    by (simp add: architecture_def fresh_notebook_def)
  have dr: "bias (output_layer (reloaded coarse double_model))
       = \<lparr>shape = [10], dtype = Float32, data = [6, 6, 6, 6, 6, 6, 6, 6, 6, 6]\<rparr>"
    by (simp add: reloaded_def converted_Linear_def converted_def double_model_def
        const_Linear_of_def coarse_def numeral_eq_Suc)
  have qa: "architecture quiet_model = (784, 10, [2])"
    by (simp add: quiet_model_def eval_mode_def wide_model_def architecture_def input_size_def
        output_size_def hidden_layer_sizes_def)
  have qf: "float32_params quiet_model"
    by (simp add: quiet_model_def eval_mode_def wide_model_def float32_params_def)
  have "load_checkpoint exact zeros ''checkpoint.pth''
          (files (cell_save_checkpoint (fresh_notebook quiet_model)))
        = Inr (reloaded exact quiet_model)"
    using load_from_artifact[of quiet_model
        "files (cell_save_checkpoint (fresh_notebook quiet_model))" "''checkpoint.pth''"
        exact zeros, OF valid_quiet_model] qa saved_file[of "fresh_notebook quiet_model"]
    by (simp add: architecture_def fresh_notebook_def)
  moreover have "reloaded exact quiet_model = wide_model"
    using reloaded_float32[OF qf, of exact]
    by (simp add: quiet_model_def eval_mode_def wide_model_def)
  ultimately have ql: "load_checkpoint exact zeros ''checkpoint.pth''
          (files (cell_save_checkpoint (fresh_notebook quiet_model))) = Inr wide_model"
    by simp
  have qs: "state_dict wide_model = state_dict quiet_model" "training wide_model"
    "\<not> training quiet_model"
    by (simp_all add: quiet_model_def eval_mode_def wide_model_def state_dict_def)
  have fw: "forward drop_all_ops () wide_model \<lparr>shape = [1], dtype = Float32, data = [1]\<rparr>
              = (\<lparr>shape = [1], dtype = Float32, data = [0]\<rparr>, ())"
    by (simp add: forward_def dropout_forward_def drop_all_ops_def wide_model_def)
  have fq: "forward drop_all_ops () quiet_model \<lparr>shape = [1], dtype = Float32, data = [1]\<rparr>
              = (\<lparr>shape = [1], dtype = Float32, data = [1]\<rparr>, ())"
    by (simp add: forward_def dropout_forward_def drop_all_ops_def quiet_model_def
        eval_mode_def wide_model_def)
  show ?thesis
    using s valid_double_model da db valid_quiet_model qa qf fq
    by (simp add: dl dr ql qs fw)
qed

text \<open>
  C2 (shape-mismatch detection). A model with hidden sizes \<open>H\<close> saves its state dict and
  the notebook reads it back. Whenever a network can be constructed with a sequence of hidden
  sizes different from \<open>H\<close> (and any input and output size), loading the state dict into it
  raises the error of \<open>load_state_dict\<close>, which is the specification's \<open>StructureMismatch\<close>.
\<close>

theorem shape_mismatch_detected:
  assumes "valid_model (var_model s)"
    and "hs \<noteq> hidden_layer_sizes (var_model s)"
    and "fc_model_Network rng (PInt i) (PInt out) (PIntList hs) = Inr m2"
  shows "\<exists>s1 s2 e. cell_load_state_dict (cell_save_state_dict s) = Inr s1
             \<and> var_state_dict s1 = Some (tensor_dict (state_dict (var_model s)))
             \<and> cell_new_model rng i out hs s1 = Inr s2
             \<and> var_model s2 = m2
             \<and> cell_load_into_model cast s2 = Inl e
             \<and> is_StructureMismatch e"
proof -
  let ?sd = "tensor_dict (state_dict (var_model s))"
  let ?s1 = "(cell_save_state_dict s)\<lparr>var_state_dict := Some ?sd\<rparr>"
  let ?s2 = "?s1\<lparr>var_model := m2\<rparr>"
  have m2: "Network_of_sizes rng i out hs = Inr m2" using assms(3) by simp
  have wf: "list_all wf_Linear (hidden_layers (var_model s))"
    using assms(1) by (simp add: valid_model_def)
  have ne: "hidden_layer_sizes m2 \<noteq> hidden_layer_sizes (var_model s)"
    using Network_of_sizes_hidden[OF m2] assms(2) by simp
  obtain msgs where msgs: "load_state_dict cast m2 ?sd = Inl (RuntimeError msgs)"
    using load_state_dict_mismatch[OF wf _ ne, of cast] Network_of_sizes_hidden[OF m2] by blast
  have a: "cell_load_state_dict (cell_save_state_dict s) = Inr ?s1"
    by (simp add: cell_load_state_dict_def cell_save_state_dict_def torch_load_def torch_save_def)
  have b: "cell_new_model rng i out hs ?s1 = Inr ?s2"
    using m2 by (simp add: cell_new_model_def)
  have c: "cell_load_into_model cast ?s2 = Inl (RuntimeError msgs)"
    using msgs by (simp add: cell_load_into_model_def)
  show ?thesis
    using a b c
    by (intro exI[of _ ?s1] exI[of _ ?s2] exI[of _ "RuntimeError msgs"]) simp
qed

theorem shape_mismatch_detected_witness:
  "valid_model (var_model (fresh_notebook small_model))
   \<and> [2] \<noteq> hidden_layer_sizes (var_model (fresh_notebook small_model))
   \<and> fc_model_Network zeros (PInt 2) (PInt 2) (PIntList [2]) = Inr two_unit_model
   \<and> (\<exists>s1 s2 e. cell_load_state_dict (cell_save_state_dict (fresh_notebook small_model)) = Inr s1
             \<and> var_state_dict s1 = Some (tensor_dict (state_dict (var_model (fresh_notebook small_model))))
             \<and> cell_new_model zeros 2 2 [2] s1 = Inr s2
             \<and> var_model s2 = two_unit_model
             \<and> cell_load_into_model exact s2 = Inl e
             \<and> is_StructureMismatch e)"
proof -
  have v: "valid_model (var_model (fresh_notebook small_model))"
    by (simp add: fresh_notebook_def valid_small_model)
  have h: "[2] \<noteq> hidden_layer_sizes (var_model (fresh_notebook small_model))"
    by (simp add: fresh_notebook_def small_model_def hidden_layer_sizes_def)
  have c: "fc_model_Network zeros (PInt 2) (PInt 2) (PIntList [2]) = Inr two_unit_model"
    by code_simp
  show ?thesis using shape_mismatch_detected[OF v h c, of exact] v h c by blast
qed

text \<open>
  The run the notebook records: the state dict of \<open>Network(784, 10, [512, 256, 128])\<close> is
  loaded into \<open>Network(784, 10, [400, 200, 100])\<close>. The model gives the seven size
  mismatches of the recorded error message, in its order, each with the size in the
  model and the size in the checkpoint.
\<close>

lemma recorded_error:
  "map_sum id (\<lambda>m. load_state_dict exact m (tensor_dict (state_dict notebook_model)))
     (fc_model_Network zeros (PInt 784) (PInt 10) (PIntList [400, 200, 100]))
   = Inr (Inl (RuntimeError
       [SizeMismatch ''hidden_layers.0.weight'' [400, 784] [512, 784],
        SizeMismatch ''hidden_layers.0.bias'' [400] [512],
        SizeMismatch ''hidden_layers.1.weight'' [200, 400] [256, 512],
        SizeMismatch ''hidden_layers.1.bias'' [200] [256],
        SizeMismatch ''hidden_layers.2.weight'' [100, 200] [128, 256],
        SizeMismatch ''hidden_layers.2.bias'' [100] [128],
        SizeMismatch ''output.weight'' [10, 100] [10, 128]]))"
  by (simp add: notebook_model_def Network_of_sizes_def nn_Linear_def state_dict_def
      hidden_key_def str_nat_small digit_def const_Linear_def const_Linear_of_def
      tensor_dict_def tensor_entries_def
      missing_keys_def unexpected_keys_def Let_def del: upt_rec_numeral)

text \<open>
  C3 (corrupt input), as the code has it. A source whose contents do not parse as a
  checkpoint (bytes that do not deserialise, or an object that is not a dictionary with
  the three descriptor fields and the parameter set) makes \<open>load_checkpoint\<close> raise: no
  model is returned. The exception is one of those that stand for \<open>CorruptArtifact\<close>, with
  one exception: when the field \<open>state_dict\<close> is a dictionary with a value that is not a
  tensor, the source can get as far as \<open>load_state_dict\<close>, whose error is the
  specification's \<open>StructureMismatch\<close>.
\<close>

theorem corrupt_source_raises:
  assumes src: "fs filepath = Some b" and bad: "parse_checkpoint b = None"
  shows "\<exists>e. load_checkpoint cast rng filepath fs = Inl e
           \<and> (if is_StructureMismatch e then nontensor_parameters b else is_CorruptArtifact e)"
proof (cases b)
  case (Raw why bs)
  then show ?thesis using src by (cases why) (simp_all add: load_checkpoint_def torch_load_def)
next
  case (Pickled obj)
  then have ld: "torch_load filepath fs = Inr obj" using src by (simp add: torch_load_def)
  show ?thesis
  proof (cases obj)
    case (PInt n)
    then show ?thesis using ld by (simp add: load_checkpoint_def)
  next
    case (PIntList ns)
    then show ?thesis using ld by (simp add: load_checkpoint_def)
  next
    case (PTensor t)
    then show ?thesis using ld by (simp add: load_checkpoint_def)
  next
    case (PDict kvs)
    note bad' = bad[unfolded Pickled PDict, simplified]
    show ?thesis
    proof (cases "map_of kvs ''input_size''")
      case None
      then show ?thesis using ld PDict by (simp add: load_checkpoint_def)
    next
      case a: (Some a)
      show ?thesis
      proof (cases "map_of kvs ''output_size''")
        case None
        then show ?thesis using ld PDict a by (simp add: load_checkpoint_def)
      next
        case b: (Some b')
        show ?thesis
        proof (cases "map_of kvs ''hidden_layers''")
          case None
          then show ?thesis using ld PDict a b by (simp add: load_checkpoint_def)
        next
          case c: (Some c)
          show ?thesis
          proof (cases "fc_model_Network rng a b' c")
            case (Inl e)
            have "\<not> is_StructureMismatch e"
              using fc_model_Network_error[OF Inl] by (cases e) simp_all
            then show ?thesis using ld PDict a b c Inl fc_model_Network_error[OF Inl]
              by (simp add: load_checkpoint_def)
          next
            case (Inr m)
            from fc_model_Network_typed[OF Inr] obtain i out hs where
              ty: "a = PInt i" "b' = PInt out" "c = PIntList hs" by blast
            show ?thesis
            proof (cases "map_of kvs ''state_dict''")
              case None
              then show ?thesis using ld PDict a b c Inr by (simp add: load_checkpoint_def)
            next
              case (Some sd)
              have un: "as_tensor_dict sd = None"
                using bad' a b c ty Some by (auto split: option.splits)
              have l: "load_checkpoint cast rng filepath fs = load_state_dict cast m sd"
                using ld PDict a b c Inr Some by (simp add: load_checkpoint_def)
              from load_state_dict_untyped[OF un, of cast m] show ?thesis
              proof
                assume "load_state_dict cast m sd = Inl TypeError"
                then show ?thesis using l by simp
              next
                assume "\<exists>es msgs. sd = PDict es \<and> as_tensors (AList.clearjunk es) = None
                          \<and> load_state_dict cast m sd = Inl (RuntimeError msgs)"
                then obtain es msgs where "sd = PDict es" "as_tensors (AList.clearjunk es) = None"
                  "load_state_dict cast m sd = Inl (RuntimeError msgs)" by blast
                then show ?thesis using l Pickled PDict Some by simp
              qed
            qed
          qed
        qed
      qed
    qed
  qed
qed

theorem corrupt_source_raises_witness:
  "(files (cell_save_state_dict (fresh_notebook small_model))) ''checkpoint.pth''
     = Some (Pickled (tensor_dict (state_dict small_model)))
   \<and> parse_checkpoint (Pickled (tensor_dict (state_dict small_model))) = None
   \<and> \<not> nontensor_parameters (Pickled (tensor_dict (state_dict small_model)))
   \<and> (\<exists>e. load_checkpoint exact zeros ''checkpoint.pth''
              (files (cell_save_state_dict (fresh_notebook small_model))) = Inl e
          \<and> is_CorruptArtifact e)"
proof -
  have a: "(files (cell_save_state_dict (fresh_notebook small_model))) ''checkpoint.pth''
     = Some (Pickled (tensor_dict (state_dict small_model)))"
    by (simp add: cell_save_state_dict_def fresh_notebook_def torch_save_def)
  have b: "parse_checkpoint (Pickled (tensor_dict (state_dict small_model))) = None"
    by code_simp
  have n: "\<not> nontensor_parameters (Pickled (tensor_dict (state_dict small_model)))"
    by code_simp
  show ?thesis
    using corrupt_source_raises[of "files (cell_save_state_dict (fresh_notebook small_model))"
        "''checkpoint.pth''" "Pickled (tensor_dict (state_dict small_model))" exact zeros, OF a b]
      a b n
    by (metis (full_types))
qed

text \<open>
  A source that does not parse as a checkpoint and raises the error of \<open>load_state_dict\<close>:
  the three descriptor fields build \<open>Network(2, 2, [1])\<close>, and the \<open>state_dict\<close> holds an
  integer under the name of the first weight. The error is \<open>StructureMismatch\<close>, not
  \<open>CorruptArtifact\<close>.
\<close>

theorem nontensor_state_dict_counterexample:
  "parse_checkpoint untyped_checkpoint = None
   \<and> load_checkpoint exact zeros ''checkpoint.pth'' [''checkpoint.pth'' \<mapsto> untyped_checkpoint]
     = Inl (RuntimeError
        [MissingKey ''hidden_layers.0.bias'',
         MissingKey ''output.weight'',
         MissingKey ''output.bias'',
         NotATensor ''hidden_layers.0.weight''])
   \<and> is_StructureMismatch (RuntimeError
        [MissingKey ''hidden_layers.0.bias'',
         MissingKey ''output.weight'',
         MissingKey ''output.bias'',
         NotATensor ''hidden_layers.0.weight''])
   \<and> \<not> is_CorruptArtifact (RuntimeError
        [MissingKey ''hidden_layers.0.bias'',
         MissingKey ''output.weight'',
         MissingKey ''output.bias'',
         NotATensor ''hidden_layers.0.weight''])"
  by code_simp

text \<open>
  Sources of the \<open>CorruptArtifact\<close> kind: bytes that are not a serialised object, a file
  that ends too early, an archive that the reader refuses, and the bare state dict that
  the notebook writes first.
\<close>

lemma raw_bytes_raise:
  "load_checkpoint exact zeros ''checkpoint.pth''
     [''checkpoint.pth'' \<mapsto> Raw NotAPickle [104, 105]] = Inl UnpicklingError"
  "load_checkpoint exact zeros ''checkpoint.pth''
     [''checkpoint.pth'' \<mapsto> Raw Truncated []] = Inl EOFError"
  "load_checkpoint exact zeros ''checkpoint.pth''
     [''checkpoint.pth'' \<mapsto> Raw BadArchive [80, 75, 3, 4]] = Inl ArchiveError"
  by (simp_all add: load_checkpoint_def torch_load_def)

lemma bare_state_dict_raises:
  "load_checkpoint exact zeros ''checkpoint.pth''
     (files (cell_save_state_dict (fresh_notebook small_model))) = Inl (KeyError ''input_size'')"
  by code_simp

text \<open>
  C4 (save sufficiency), as the code has it. For a valid model with 784 inputs and 10
  outputs, the file that the checkpoint cell writes parses as a checkpoint whose three
  descriptor fields are the architecture fields of the model and whose parameter set
  holds every weight and bias of the model under its name. This alone is enough to
  rebuild the model: a network built from the three stored fields has the architecture
  of the model, and \<open>load_checkpoint\<close> gives, from any file that holds the artifact and
  whatever the other files, the path, the conversion between element types and the
  initial values are, a network of the architecture of the model with the parameters of
  the model in the default element type. It is the model itself when the parameters of
  the model are of that type and the model has the dropout rate and the mode of a new
  network.
\<close>

theorem save_sufficient_784_10:
  assumes "valid_model (var_model (s :: 'a notebook))"
    and "input_size (var_model s) = 784" and "output_size (var_model s) = 10"
  shows "\<exists>b cp. files (cell_save_checkpoint s) ''checkpoint.pth'' = Some b
           \<and> parse_checkpoint b = Some cp
           \<and> descriptor cp = architecture (var_model s)
           \<and> (\<forall>i<length (hidden_layers (var_model s)).
                 map_of (cp_parameters cp) (hidden_key i ''weight'')
                   = Some (weight (hidden_layers (var_model s) ! i))
                 \<and> map_of (cp_parameters cp) (hidden_key i ''bias'')
                   = Some (bias (hidden_layers (var_model s) ! i)))
           \<and> map_of (cp_parameters cp) ''output.weight'' = Some (weight (output_layer (var_model s)))
           \<and> map_of (cp_parameters cp) ''output.bias'' = Some (bias (output_layer (var_model s)))
           \<and> (\<forall>rng :: nat \<Rightarrow> nat \<Rightarrow> 'a.
                 \<exists>M'. fc_model_Network rng (PInt (cp_input_size cp)) (PInt (cp_output_size cp))
                            (PIntList (cp_hidden_layer_sizes cp)) = Inr M'
                        \<and> architecture M' = architecture (var_model s))
           \<and> (\<forall>(cast :: dtype \<Rightarrow> dtype \<Rightarrow> 'a \<Rightarrow> 'a) rng fs f.
                 fs f = Some b \<longrightarrow>
                   load_checkpoint cast rng f fs = Inr (reloaded cast (var_model s))
                   \<and> architecture (reloaded cast (var_model s)) = architecture (var_model s)
                   \<and> (float32_params (var_model s) \<and> dropout (var_model s) = 1 / 2
                        \<and> training (var_model s) \<longrightarrow>
                      load_checkpoint cast rng f fs = Inr (var_model s)))"
proof -
  let ?m = "var_model s"
  let ?cp = "\<lparr>cp_input_size = 784, cp_output_size = 10,
           cp_hidden_layer_sizes = hidden_layer_sizes ?m, cp_parameters = state_dict ?m\<rparr>"
  have d: "descriptor ?cp = architecture ?m"
    using assms(2,3) by (simp add: descriptor_def architecture_def)
  have p: "\<forall>i<length (hidden_layers ?m).
                 map_of (cp_parameters ?cp) (hidden_key i ''weight'') = Some (weight (hidden_layers ?m ! i))
                 \<and> map_of (cp_parameters ?cp) (hidden_key i ''bias'') = Some (bias (hidden_layers ?m ! i))"
    by (simp add: map_of_state_dict_hidden)
  have q: "map_of (cp_parameters ?cp) ''output.weight'' = Some (weight (output_layer ?m))"
    "map_of (cp_parameters ?cp) ''output.bias'' = Some (bias (output_layer ?m))"
    by (simp_all add: map_of_state_dict_output)
  have r: "\<forall>rng :: nat \<Rightarrow> nat \<Rightarrow> 'a. \<exists>M'. fc_model_Network rng (PInt (cp_input_size ?cp)) (PInt (cp_output_size ?cp))
                            (PIntList (cp_hidden_layer_sizes ?cp)) = Inr M'
                        \<and> architecture M' = architecture ?m"
  proof
    fix rng :: "nat \<Rightarrow> nat \<Rightarrow> 'a"
    obtain M' where "Network_of_sizes rng 784 10 (hidden_layer_sizes ?m) = Inr M'"
      "input_size M' = 784" "output_size M' = 10" "hidden_layer_sizes M' = hidden_layer_sizes ?m"
      using Network_of_sizes_valid[of 784 10 "hidden_layer_sizes ?m" rng] valid_sizes[OF assms(1)]
      by auto
    then show "\<exists>M'. fc_model_Network rng (PInt (cp_input_size ?cp)) (PInt (cp_output_size ?cp))
                            (PIntList (cp_hidden_layer_sizes ?cp)) = Inr M'
                        \<and> architecture M' = architecture ?m"
      using assms(2,3) by (simp add: architecture_def)
  qed
  have l: "\<forall>(cast :: dtype \<Rightarrow> dtype \<Rightarrow> 'a \<Rightarrow> 'a) rng fs f.
             fs f = Some (Pickled (checkpoint_of ?m)) \<longrightarrow>
               load_checkpoint cast rng f fs = Inr (reloaded cast ?m)
               \<and> architecture (reloaded cast ?m) = architecture ?m
               \<and> (float32_params ?m \<and> dropout ?m = 1 / 2 \<and> training ?m \<longrightarrow>
                    load_checkpoint cast rng f fs = Inr ?m)"
  proof (intro allI impI conjI)
    fix cast :: "dtype \<Rightarrow> dtype \<Rightarrow> 'a \<Rightarrow> 'a" and rng :: "nat \<Rightarrow> nat \<Rightarrow> 'a"
      and fs :: "'a files" and f :: string
    assume f: "fs f = Some (Pickled (checkpoint_of ?m))"
    show ld: "load_checkpoint cast rng f fs = Inr (reloaded cast ?m)"
      using load_from_artifact[of ?m fs f cast rng, OF assms f] .
    show "architecture (reloaded cast ?m) = architecture ?m" by simp
    assume "float32_params ?m \<and> dropout ?m = 1 / 2 \<and> training ?m"
    then have "reloaded cast ?m = ?m" using reloaded_float32[of ?m cast] by simp
    then show "load_checkpoint cast rng f fs = Inr ?m" using ld by simp
  qed
  show ?thesis
    using saved_file[of s] parse_saved[of ?m] d p q r l by blast
qed

theorem save_sufficient_784_10_witness:
  "valid_model (var_model (fresh_notebook wide_model))
   \<and> input_size (var_model (fresh_notebook wide_model)) = 784
   \<and> output_size (var_model (fresh_notebook wide_model)) = 10
   \<and> (\<exists>b cp. files (cell_save_checkpoint (fresh_notebook wide_model)) ''checkpoint.pth'' = Some b
           \<and> parse_checkpoint b = Some cp
           \<and> descriptor cp = architecture (var_model (fresh_notebook wide_model))
           \<and> descriptor cp = (784, 10, [2])
           \<and> map_of (cp_parameters cp) ''output.bias''
               = Some \<lparr>shape = [10], dtype = Float32, data = replicate 10 7\<rparr>
           \<and> load_checkpoint exact zeros ''elsewhere.pth'' [''elsewhere.pth'' \<mapsto> b] = Inr wide_model)"
proof -
  have v: "valid_model (var_model (fresh_notebook wide_model))"
    by (simp add: fresh_notebook_def valid_wide_model)
  have i: "input_size (var_model (fresh_notebook wide_model)) = 784"
    by (simp add: fresh_notebook_def wide_model_def input_size_def)
  have o: "output_size (var_model (fresh_notebook wide_model)) = 10"
    by (simp add: fresh_notebook_def wide_model_def output_size_def)
  have a: "architecture (var_model (fresh_notebook wide_model)) = (784, 10, [2])"
    by (simp add: fresh_notebook_def wide_model_def architecture_def input_size_def
        output_size_def hidden_layer_sizes_def)
  have w: "var_model (fresh_notebook wide_model) = wide_model"
    by (simp add: fresh_notebook_def)
  have ob: "bias (output_layer wide_model) = \<lparr>shape = [10], dtype = Float32, data = replicate 10 7\<rparr>"
    by (simp add: wide_model_def const_Linear_def const_Linear_of_def)
  have c: "float32_params wide_model \<and> dropout wide_model = 1 / 2 \<and> training wide_model"
    by (simp add: wide_model_def float32_params_def)
  from save_sufficient_784_10[OF v i o] obtain b cp where
    f: "files (cell_save_checkpoint (fresh_notebook wide_model)) ''checkpoint.pth'' = Some b"
    and p: "parse_checkpoint b = Some cp"
    and d: "descriptor cp = architecture (var_model (fresh_notebook wide_model))"
    and q: "map_of (cp_parameters cp) ''output.bias''
              = Some (bias (output_layer (var_model (fresh_notebook wide_model))))"
    and l: "\<forall>(cast :: dtype \<Rightarrow> dtype \<Rightarrow> int \<Rightarrow> int) rng fs f.
              fs f = Some b \<longrightarrow>
                load_checkpoint cast rng f fs = Inr (reloaded cast (var_model (fresh_notebook wide_model)))
                \<and> architecture (reloaded cast (var_model (fresh_notebook wide_model)))
                    = architecture (var_model (fresh_notebook wide_model))
                \<and> (float32_params (var_model (fresh_notebook wide_model))
                     \<and> dropout (var_model (fresh_notebook wide_model)) = 1 / 2
                     \<and> training (var_model (fresh_notebook wide_model)) \<longrightarrow>
                   load_checkpoint cast rng f fs = Inr (var_model (fresh_notebook wide_model)))"
    by blast
  have e: "[''elsewhere.pth'' \<mapsto> b] ''elsewhere.pth'' = Some b"
    by simp
  have "load_checkpoint exact zeros ''elsewhere.pth'' [''elsewhere.pth'' \<mapsto> b] = Inr wide_model"
    using e l[THEN spec[where x = exact], THEN spec[where x = zeros],
        THEN spec[where x = "[''elsewhere.pth'' \<mapsto> b]"],
        THEN spec[where x = "''elsewhere.pth''"]] c
    unfolding w by blast
  then show ?thesis using v i o f p d q a w ob by auto
qed

text \<open>
  For a valid model with two inputs and two outputs the stored descriptor is not the
  architecture of the model, and the network built from it is not architecturally
  identical to the model.
\<close>

theorem descriptor_not_of_model_counterexample:
  "valid_model small_model
   \<and> architecture small_model = (2, 2, [1])
   \<and> map_option descriptor
       (Option.bind (files (cell_save_checkpoint (fresh_notebook small_model)) ''checkpoint.pth'')
          parse_checkpoint) = Some (784, 10, [1])
   \<and> map_sum id architecture (fc_model_Network zeros (PInt 784) (PInt 10) (PIntList [1]))
       = Inr (784, 10, [1])"
  by code_simp

text \<open>
  C5 (the steps of load), as the code has it. For the file that the checkpoint cell saved
  from a valid model with 784 inputs and 10 outputs, \<open>load_checkpoint\<close> deserialises the
  checkpoint; reads the three descriptor fields and builds a new network from them alone,
  a network of the stored architecture with its own initial values; then reads the
  parameter set and assigns it to that network; and returns the network so populated,
  whose state dict is, entry for entry, the stored parameter set in the element type of
  the new network: the stored parameter set itself when it is of that type.
\<close>

theorem load_steps_784_10:
  assumes "valid_model (var_model (s :: 'a notebook))"
    and "input_size (var_model s) = 784" and "output_size (var_model s) = 10"
  shows "\<exists>cp m0 entries M'.
           torch_load ''checkpoint.pth'' (files (cell_save_checkpoint s)) = Inr cp
         \<and> getitem cp ''input_size'' = Inr (PInt 784)
         \<and> getitem cp ''output_size'' = Inr (PInt 10)
         \<and> getitem cp ''hidden_layers'' = Inr (PIntList (hidden_layer_sizes (var_model s)))
         \<and> fc_model_Network rng (PInt 784) (PInt 10)
              (PIntList (hidden_layer_sizes (var_model s))) = Inr m0
         \<and> architecture m0 = (784, 10, hidden_layer_sizes (var_model s))
         \<and> getitem cp ''state_dict'' = Inr (tensor_dict entries)
         \<and> entries = state_dict (var_model s)
         \<and> load_state_dict cast m0 (tensor_dict entries) = Inr M'
         \<and> state_dict M' = map (\<lambda>(k, t). (k, converted cast Float32 t)) entries
         \<and> (float32_params (var_model s) \<longrightarrow> state_dict M' = entries)
         \<and> load_checkpoint cast rng ''checkpoint.pth'' (files (cell_save_checkpoint s)) = Inr M'"
proof -
  let ?m = "var_model s"
  let ?fs = "files (cell_save_checkpoint s)"
  have t: "torch_load ''checkpoint.pth'' ?fs = Inr (checkpoint_of ?m)"
    by (simp add: torch_load_def saved_file)
  have g: "getitem (checkpoint_of ?m) ''input_size'' = Inr (PInt 784)"
    "getitem (checkpoint_of ?m) ''output_size'' = Inr (PInt 10)"
    "getitem (checkpoint_of ?m) ''hidden_layers'' = Inr (PIntList (hidden_layer_sizes ?m))"
    "getitem (checkpoint_of ?m) ''state_dict'' = Inr (tensor_dict (state_dict ?m))"
    by (simp_all add: checkpoint_of_def hidden_layer_sizes_def)
  obtain m0 where m0: "Network_of_sizes rng 784 10 (hidden_layer_sizes ?m) = Inr m0"
    and same: "list_all2 built_like (hidden_layers m0) (hidden_layers ?m)"
      "built_like (output_layer m0) (output_layer ?m)" "dropout m0 = 1 / 2" "training m0"
    using Network_of_sizes_same[OF assms(1), of rng] assms(2,3) by auto
  have a: "architecture m0 = (784, 10, hidden_layer_sizes ?m)"
    using Network_of_sizes_valid[of 784 10 "hidden_layer_sizes ?m" rng] valid_sizes[OF assms(1)] m0
    by (auto simp: architecture_def)
  have l: "load_state_dict cast m0 (tensor_dict (state_dict ?m)) = Inr (reloaded cast ?m)"
    using load_state_dict_same[OF same] .
  have r: "load_checkpoint cast rng ''checkpoint.pth'' ?fs = Inr (reloaded cast ?m)"
    using load_from_artifact[of ?m ?fs "''checkpoint.pth''" cast rng, OF assms saved_file] .
  have sd: "state_dict (reloaded cast ?m)
              = map (\<lambda>(k, t). (k, converted cast Float32 t)) (state_dict ?m)"
    by (rule state_dict_reloaded)
  have f: "float32_params ?m \<longrightarrow> state_dict (reloaded cast ?m) = state_dict ?m"
    by (auto simp: reloaded_float32 state_dict_def)
  show ?thesis
    using t g m0 a l r sd f by (intro exI[of _ "checkpoint_of ?m"] exI[of _ m0]
        exI[of _ "state_dict ?m"] exI[of _ "reloaded cast ?m"]) simp
qed

theorem load_steps_784_10_witness:
  "valid_model (var_model (fresh_notebook wide_model))
   \<and> input_size (var_model (fresh_notebook wide_model)) = 784
   \<and> output_size (var_model (fresh_notebook wide_model)) = 10
   \<and> float32_params (var_model (fresh_notebook wide_model))
   \<and> (\<exists>m0 M'.
           torch_load ''checkpoint.pth'' (files (cell_save_checkpoint (fresh_notebook wide_model)))
             = Inr (checkpoint_of wide_model)
         \<and> fc_model_Network zeros (PInt 784) (PInt 10) (PIntList [2]) = Inr m0
         \<and> architecture m0 = (784, 10, [2])
         \<and> load_state_dict exact m0 (tensor_dict (state_dict wide_model)) = Inr M'
         \<and> state_dict M' = state_dict wide_model
         \<and> load_checkpoint exact zeros ''checkpoint.pth''
              (files (cell_save_checkpoint (fresh_notebook wide_model))) = Inr M')"
proof -
  have v: "valid_model (var_model (fresh_notebook wide_model))"
    by (simp add: fresh_notebook_def valid_wide_model)
  have i: "input_size (var_model (fresh_notebook wide_model)) = 784"
    by (simp add: fresh_notebook_def wide_model_def input_size_def)
  have o: "output_size (var_model (fresh_notebook wide_model)) = 10"
    by (simp add: fresh_notebook_def wide_model_def output_size_def)
  have w: "var_model (fresh_notebook wide_model) = wide_model"
    by (simp add: fresh_notebook_def)
  have f: "float32_params wide_model"
    by (simp add: wide_model_def float32_params_def)
  have h: "hidden_layer_sizes wide_model = [2]"
    by (simp add: wide_model_def hidden_layer_sizes_def)
  have t: "torch_load ''checkpoint.pth'' (files (cell_save_checkpoint (fresh_notebook wide_model)))
             = Inr (checkpoint_of wide_model)"
    by (simp add: torch_load_def saved_file w)
  show ?thesis
    using load_steps_784_10[OF v i o, of zeros exact] v i o t f unfolding w h by auto
qed

text \<open>
  For a valid model with two inputs the first two steps succeed, the assignment raises and
  no populated model is returned.
\<close>

theorem load_steps_other_sizes_counterexample:
  "torch_load ''checkpoint.pth'' (files (cell_save_checkpoint (fresh_notebook small_model)))
     = Inr (checkpoint_of small_model)
   \<and> getitem (checkpoint_of small_model) ''input_size'' = Inr (PInt 784)
   \<and> getitem (checkpoint_of small_model) ''output_size'' = Inr (PInt 10)
   \<and> getitem (checkpoint_of small_model) ''hidden_layers'' = Inr (PIntList [1])
   \<and> map_sum id architecture (fc_model_Network zeros (PInt 784) (PInt 10) (PIntList [1]))
       = Inr (784, 10, [1])
   \<and> map_sum is_StructureMismatch architecture
       (load_checkpoint exact zeros ''checkpoint.pth''
          (files (cell_save_checkpoint (fresh_notebook small_model)))) = Inl True"
  by code_simp

text \<open>
  C6 (the chain of dimensions), as the code has it. In the checkpoint that the cell
  writes from a valid model, every layer has a weight matrix; for consecutive layers the
  output dimension of the one is the input dimension of the next; the input dimension of
  the first equals the stored \<open>input_size\<close> exactly when the model has 784 inputs; and the
  output dimension of the last equals the stored \<open>output_size\<close> exactly when the model has
  10 outputs.
\<close>

theorem dimension_chain:
  assumes "valid_model (var_model s)"
  shows "\<exists>b cp ds. files (cell_save_checkpoint s) ''checkpoint.pth'' = Some b
           \<and> parse_checkpoint b = Some cp
           \<and> layer_dims cp = map Some ds
           \<and> length ds = Suc (length (cp_hidden_layer_sizes cp))
           \<and> (\<forall>i. Suc i < length ds \<longrightarrow> fst (ds ! i) = snd (ds ! Suc i))
           \<and> (snd (hd ds) = cp_input_size cp \<longleftrightarrow> input_size (var_model s) = 784)
           \<and> (fst (last ds) = cp_output_size cp \<longleftrightarrow> output_size (var_model s) = 10)"
proof -
  let ?m = "var_model s"
  let ?ls = "hidden_layers ?m @ [output_layer ?m]"
  let ?ds = "map dims_of ?ls"
  let ?cp = "\<lparr>cp_input_size = 784, cp_output_size = 10,
           cp_hidden_layer_sizes = hidden_layer_sizes ?m, cp_parameters = state_dict ?m\<rparr>"
  from assms have ne: "hidden_layers ?m \<noteq> []" and wfh: "list_all wf_Linear (hidden_layers ?m)"
    and wfo: "wf_Linear (output_layer ?m)" and ch: "chained (input_size ?m) ?ls"
    by (simp_all add: valid_model_def)
  have ld: "layer_dims ?cp = map Some ?ds"
    using layer_dims_saved[OF wfh wfo] .
  have len: "length ?ds = Suc (length (cp_hidden_layer_sizes ?cp))"
    by (simp add: hidden_layer_sizes_def)
  have chain: "\<forall>i. Suc i < length ?ds \<longrightarrow> fst (?ds ! i) = snd (?ds ! Suc i)"
  proof (intro allI impI)
    fix i assume i: "Suc i < length ?ds"
    then have "out_features (?ls ! i) = in_features (?ls ! Suc i)"
      using chained_nth[OF ch, of i] by simp
    moreover have "?ds ! i = dims_of (?ls ! i)" "?ds ! Suc i = dims_of (?ls ! Suc i)"
      using i by (simp_all only: length_map nth_map Suc_lessD)
    ultimately show "fst (?ds ! i) = snd (?ds ! Suc i)" by (simp add: dims_of_def)
  qed
  have first: "snd (hd ?ds) = input_size ?m"
    using ne by (cases "hidden_layers ?m") (simp_all add: input_size_def dims_of_def)
  have final: "fst (last ?ds) = output_size ?m"
    by (simp add: output_size_def dims_of_def last_map)
  show ?thesis
    using saved_file[of s] parse_saved[of ?m] ld len chain first final
    by (intro exI[of _ "Pickled (checkpoint_of ?m)"] exI[of _ ?cp] exI[of _ ?ds]) simp
qed

theorem dimension_chain_witness:
  "valid_model (var_model (fresh_notebook wide_model))
   \<and> (\<exists>b cp ds. files (cell_save_checkpoint (fresh_notebook wide_model)) ''checkpoint.pth'' = Some b
           \<and> parse_checkpoint b = Some cp
           \<and> layer_dims cp = map Some ds
           \<and> length ds = Suc (length (cp_hidden_layer_sizes cp))
           \<and> (\<forall>i. Suc i < length ds \<longrightarrow> fst (ds ! i) = snd (ds ! Suc i))
           \<and> snd (hd ds) = cp_input_size cp
           \<and> fst (last ds) = cp_output_size cp)"
proof -
  have v: "valid_model (var_model (fresh_notebook wide_model))"
    by (simp add: fresh_notebook_def valid_wide_model)
  have i: "input_size (var_model (fresh_notebook wide_model)) = 784"
    by (simp add: fresh_notebook_def wide_model_def input_size_def)
  have o: "output_size (var_model (fresh_notebook wide_model)) = 10"
    by (simp add: fresh_notebook_def wide_model_def output_size_def)
  show ?thesis using dimension_chain[OF v] v unfolding i o by simp
qed

text \<open>
  For a valid model with two inputs and two outputs, the first weight matrix of the
  checkpoint has input dimension 2 and the last has output dimension 2, while the stored
  sizes are 784 and 10.
\<close>

theorem first_dimension_counterexample:
  "valid_model small_model
   \<and> map_option layer_dims
       (Option.bind (files (cell_save_checkpoint (fresh_notebook small_model)) ''checkpoint.pth'')
          parse_checkpoint) = Some [Some (1, 2), Some (2, 1)]
   \<and> map_option cp_input_size
       (Option.bind (files (cell_save_checkpoint (fresh_notebook small_model)) ''checkpoint.pth'')
          parse_checkpoint) = Some 784
   \<and> map_option cp_output_size
       (Option.bind (files (cell_save_checkpoint (fresh_notebook small_model)) ''checkpoint.pth'')
          parse_checkpoint) = Some 10"
  by code_simp

text \<open>
  C7 (the example scenario). A valid model with \<open>input_size = 784\<close>, \<open>output_size = 10\<close> and
  \<open>hidden_layer_sizes = [512, 256, 128]\<close>, as \<open>fc_model.Network(784, 10, [512, 256, 128])\<close>
  builds it, is saved and loaded back: the loaded model has the descriptor fields
  \<open>(784, 10, [512, 256, 128])\<close> and the weight of its first hidden layer has shape
  \<open>[512, 784]\<close>.
\<close>

theorem example_scenario:
  assumes "valid_model (var_model s)"
    and "architecture (var_model s) = (784, 10, [512, 256, 128])"
  shows "\<exists>M' l ls. load_checkpoint cast rng ''checkpoint.pth'' (files (cell_save_checkpoint s)) = Inr M'
           \<and> (input_size M', output_size M', hidden_layer_sizes M') = (784, 10, [512, 256, 128])
           \<and> hidden_layers M' = l # ls
           \<and> shape (weight l) = [512, 784]"
proof -
  let ?m = "var_model s"
  have i: "input_size ?m = 784" and o: "output_size ?m = 10"
    and h: "hidden_layer_sizes ?m = [512, 256, 128]"
    using assms(2) by (simp_all add: architecture_def)
  have r: "load_checkpoint cast rng ''checkpoint.pth'' (files (cell_save_checkpoint s))
             = Inr (reloaded cast ?m)"
    using load_from_artifact[of ?m "files (cell_save_checkpoint s)" "''checkpoint.pth''" cast rng,
        OF assms(1) i o saved_file] .
  obtain l ls where "hidden_layers ?m = l # ls" "shape (weight l) = [512, 784]"
    using first_weight_shape[OF assms(1)] i h by auto
  then have "hidden_layers (reloaded cast ?m)
               = converted_Linear cast Float32 l # map (converted_Linear cast Float32) ls"
    "shape (weight (converted_Linear cast Float32 l)) = [512, 784]"
    by (simp_all add: reloaded_def converted_Linear_def)
  then show ?thesis using r i o h by simp
qed

theorem example_scenario_witness:
  "valid_model (var_model (fresh_notebook notebook_model))
   \<and> architecture (var_model (fresh_notebook notebook_model)) = (784, 10, [512, 256, 128])
   \<and> (\<exists>M' l ls. load_checkpoint exact zeros ''checkpoint.pth''
                   (files (cell_save_checkpoint (fresh_notebook notebook_model))) = Inr M'
           \<and> (input_size M', output_size M', hidden_layer_sizes M') = (784, 10, [512, 256, 128])
           \<and> hidden_layers M' = l # ls
           \<and> shape (weight l) = [512, 784])"
proof -
  have v: "valid_model (var_model (fresh_notebook notebook_model))"
    by (simp add: fresh_notebook_def valid_notebook_model)
  have a: "architecture (var_model (fresh_notebook notebook_model)) = (784, 10, [512, 256, 128])"
    by (simp add: fresh_notebook_def notebook_model_def architecture_def input_size_def
        output_size_def hidden_layer_sizes_def)
  show ?thesis using example_scenario[OF v a, of exact zeros] v a by blast
qed

text \<open>
  C8 (safety of the descriptor path), as the code has it. For the checkpoint that the
  cell saves from a valid model, \<open>load_checkpoint\<close> (which builds the network from the
  stored descriptor before it assigns the parameters) raises \<open>StructureMismatch\<close> exactly
  when the model does not have 784 inputs and 10 outputs. For the models of that input
  and output size the error is never raised.
\<close>

theorem descriptor_path_mismatch_iff:
  assumes "valid_model (var_model s)"
  shows "(\<exists>e. load_checkpoint cast rng ''checkpoint.pth'' (files (cell_save_checkpoint s)) = Inl e
              \<and> is_StructureMismatch e)
         \<longleftrightarrow> (input_size (var_model s) \<noteq> 784 \<or> output_size (var_model s) \<noteq> 10)"
proof (cases "input_size (var_model s) = 784 \<and> output_size (var_model s) = 10")
  case True
  then have "load_checkpoint cast rng ''checkpoint.pth'' (files (cell_save_checkpoint s))
               = Inr (reloaded cast (var_model s))"
    using load_from_artifact[of "var_model s" "files (cell_save_checkpoint s)"
        "''checkpoint.pth''" cast rng, OF assms _ _ saved_file] by simp
  then show ?thesis using True by simp
next
  case False
  then have d: "input_size (var_model s) \<noteq> 784 \<or> output_size (var_model s) \<noteq> 10" by simp
  obtain msgs where "load_checkpoint cast rng ''checkpoint.pth'' (files (cell_save_checkpoint s))
      = Inl (RuntimeError msgs)"
    using load_saved_other_sizes[of "var_model s" "files (cell_save_checkpoint s)"
        "''checkpoint.pth''" cast rng, OF assms d saved_file] by blast
  then show ?thesis using d by simp
qed

theorem descriptor_path_mismatch_iff_witness:
  "valid_model (var_model (fresh_notebook wide_model))
   \<and> input_size (var_model (fresh_notebook wide_model)) = 784
   \<and> output_size (var_model (fresh_notebook wide_model)) = 10
   \<and> \<not> (\<exists>e. load_checkpoint exact zeros ''checkpoint.pth''
               (files (cell_save_checkpoint (fresh_notebook wide_model))) = Inl e
            \<and> is_StructureMismatch e)"
proof -
  have v: "valid_model (var_model (fresh_notebook wide_model))"
    by (simp add: fresh_notebook_def valid_wide_model)
  have i: "input_size (var_model (fresh_notebook wide_model)) = 784"
    by (simp add: fresh_notebook_def wide_model_def input_size_def)
  have o: "output_size (var_model (fresh_notebook wide_model)) = 10"
    by (simp add: fresh_notebook_def wide_model_def output_size_def)
  show ?thesis using descriptor_path_mismatch_iff[OF v, of exact zeros] v i o by simp
qed

text \<open>
  A valid model with 784 inputs and three outputs: the checkpoint cell stores the output
  size 10, the network built from the stored descriptor has ten outputs, and loading
  through the descriptor raises the error of \<open>load_state_dict\<close>.
\<close>

theorem descriptor_path_raises_counterexample:
  "valid_model three_class_model
   \<and> architecture three_class_model = (784, 3, [2])
   \<and> load_checkpoint exact zeros ''checkpoint.pth''
       (files (cell_save_checkpoint (fresh_notebook three_class_model)))
     = Inl (RuntimeError
        [SizeMismatch ''output.weight'' [10, 2] [3, 2],
         SizeMismatch ''output.bias'' [10] [3]])
   \<and> is_StructureMismatch (RuntimeError
        [SizeMismatch ''output.weight'' [10, 2] [3, 2],
         SizeMismatch ''output.bias'' [10] [3]])"
  using valid_three_class_model
  by (simp add: three_class_model_def architecture_def load_checkpoint_def torch_load_def
      cell_save_checkpoint_def fresh_notebook_def torch_save_def checkpoint_of_def
      Network_of_sizes_def nn_Linear_def state_dict_def hidden_key_def str_nat.simps[of 0]
      digit_def const_Linear_def const_Linear_of_def tensor_dict_def tensor_entries_def
      missing_keys_def unexpected_keys_def Let_def input_size_def
      output_size_def hidden_layer_sizes_def del: upt_rec_numeral)

text \<open>
  C9 (write-once), as the code has it. No step of the notebook, whether it returns or
  raises, changes a file other than \<open>checkpoint.pth\<close>, and the steps that load change no
  file at all. A step that saves and completes puts the new object in \<open>checkpoint.pth\<close>
  in place of whatever the file held, so a file written before is replaced. A step that
  saves and fails raises, and the destination holds whatever the failed save left there:
  what the file held before is not kept in either case.
\<close>

theorem files_after_step:
  "(\<forall>f. f \<noteq> ''checkpoint.pth'' \<longrightarrow> files (snd (run_cell cast how c s)) f = files s f)
   \<and> (c \<noteq> SaveStateDict \<and> c \<noteq> SaveCheckpoint \<longrightarrow> files (snd (run_cell cast how c s)) = files s)
   \<and> (c = SaveStateDict \<and> how = Completed \<longrightarrow>
        fst (run_cell cast how c s) = None
        \<and> files (snd (run_cell cast how c s)) ''checkpoint.pth''
            = Some (Pickled (tensor_dict (state_dict (var_model s)))))
   \<and> (c = SaveCheckpoint \<and> how = Completed \<longrightarrow>
        fst (run_cell cast how c s) = None
        \<and> files (snd (run_cell cast how c s)) ''checkpoint.pth''
            = Some (Pickled (checkpoint_of (var_model s))))
   \<and> (\<forall>e left. (c = SaveStateDict \<or> c = SaveCheckpoint) \<and> how = Failed e left \<longrightarrow>
        fst (run_cell cast how c s) = Some e
        \<and> files (snd (run_cell cast how c s)) ''checkpoint.pth'' = left)"
proof (cases c)
  case SaveStateDict
  then show ?thesis
    by (cases how) (simp_all add: torch_save_def)
next
  case LoadStateDict
  then show ?thesis using load_state_dict_files[of s]
    by (auto split: sum.splits)
next
  case (NewModel rng i out hs)
  then show ?thesis using new_model_files[of rng i out hs s]
    by (auto split: sum.splits)
next
  case LoadIntoModel
  then show ?thesis using load_into_model_files[of cast s]
    by (auto split: sum.splits option.splits)
next
  case SaveCheckpoint
  then show ?thesis
    by (cases how) (simp_all add: torch_save_def Let_def)
next
  case (LoadCheckpoint rng)
  then show ?thesis using load_checkpoint_files[of cast rng s]
    by (auto split: sum.splits)
qed

theorem files_after_step_witness:
  "LoadCheckpoint zeros \<noteq> SaveStateDict \<and> LoadCheckpoint zeros \<noteq> SaveCheckpoint
   \<and> fst (run_cell exact Completed (LoadCheckpoint zeros)
            (cell_save_checkpoint (fresh_notebook small_model)))
     = Some (RuntimeError
        [SizeMismatch ''hidden_layers.0.weight'' [1, 784] [1, 2],
         SizeMismatch ''output.weight'' [10, 1] [2, 1],
         SizeMismatch ''output.bias'' [10] [2]])
   \<and> files (snd (run_cell exact Completed (LoadCheckpoint zeros)
                   (cell_save_checkpoint (fresh_notebook small_model))))
     = files (cell_save_checkpoint (fresh_notebook small_model))
   \<and> files (cell_save_checkpoint (fresh_notebook small_model)) ''checkpoint.pth''
       = Some (Pickled (checkpoint_of small_model))"
proof -
  let ?s = "cell_save_checkpoint (fresh_notebook small_model)"
  have w: "var_model (fresh_notebook small_model) = small_model"
    by (simp add: fresh_notebook_def)
  have l: "load_checkpoint exact zeros ''checkpoint.pth'' (files ?s)
     = Inl (RuntimeError
        [SizeMismatch ''hidden_layers.0.weight'' [1, 784] [1, 2],
         SizeMismatch ''output.weight'' [10, 1] [2, 1],
         SizeMismatch ''output.bias'' [10] [2]])"
    by code_simp
  have r: "fst (run_cell exact Completed (LoadCheckpoint zeros) ?s)
     = Some (RuntimeError
        [SizeMismatch ''hidden_layers.0.weight'' [1, 784] [1, 2],
         SizeMismatch ''output.weight'' [10, 1] [2, 1],
         SizeMismatch ''output.bias'' [10] [2]])"
    by (simp add: cell_load_checkpoint_def l)
  have c: "LoadCheckpoint zeros \<noteq> SaveStateDict \<and> LoadCheckpoint zeros \<noteq> SaveCheckpoint"
    by simp
  show ?thesis
    using files_after_step[of exact Completed "LoadCheckpoint zeros" ?s] c r
      saved_file[of "fresh_notebook small_model"] w
    by simp
qed

text \<open>
  The notebook writes \<open>checkpoint.pth\<close> twice: first the bare state dict, then the
  checkpoint, which replaces it. Saving again after \<open>model\<close> has been rebound replaces the
  checkpoint written before. And a save that fails can leave nothing where the checkpoint
  was.
\<close>

theorem checkpoint_overwritten_counterexample:
  "files (cell_save_state_dict (fresh_notebook small_model)) ''checkpoint.pth''
     = Some (Pickled (tensor_dict (state_dict small_model)))
   \<and> files (cell_save_checkpoint (cell_save_state_dict (fresh_notebook small_model)))
       ''checkpoint.pth''
     = Some (Pickled (checkpoint_of small_model))
   \<and> files (cell_save_checkpoint
         ((cell_save_checkpoint (cell_save_state_dict (fresh_notebook small_model)))
            \<lparr>var_model := two_unit_model\<rparr>)) ''checkpoint.pth''
     = Some (Pickled (checkpoint_of two_unit_model))
   \<and> checkpoint_of two_unit_model \<noteq> checkpoint_of small_model
   \<and> checkpoint_of small_model \<noteq> tensor_dict (state_dict small_model)
   \<and> run_cell exact Completed SaveCheckpoint (cell_save_state_dict (fresh_notebook small_model))
     = (None, cell_save_checkpoint (cell_save_state_dict (fresh_notebook small_model)))
   \<and> fst (run_cell exact (Failed OSError None) SaveCheckpoint
            (cell_save_checkpoint (fresh_notebook small_model))) = Some OSError
   \<and> files (snd (run_cell exact (Failed OSError None) SaveCheckpoint
                   (cell_save_checkpoint (fresh_notebook small_model)))) ''checkpoint.pth''
     = None"
proof -
  have a: "files (cell_save_state_dict (fresh_notebook small_model)) ''checkpoint.pth''
     = Some (Pickled (tensor_dict (state_dict small_model)))
   \<and> files (cell_save_checkpoint (cell_save_state_dict (fresh_notebook small_model)))
       ''checkpoint.pth''
     = Some (Pickled (checkpoint_of small_model))
   \<and> files (cell_save_checkpoint
         ((cell_save_checkpoint (cell_save_state_dict (fresh_notebook small_model)))
            \<lparr>var_model := two_unit_model\<rparr>)) ''checkpoint.pth''
     = Some (Pickled (checkpoint_of two_unit_model))
   \<and> checkpoint_of two_unit_model \<noteq> checkpoint_of small_model
   \<and> checkpoint_of small_model \<noteq> tensor_dict (state_dict small_model)"
    by code_simp
  have b: "fst (run_cell exact (Failed OSError None) SaveCheckpoint
            (cell_save_checkpoint (fresh_notebook small_model))) = Some OSError
   \<and> files (snd (run_cell exact (Failed OSError None) SaveCheckpoint
                   (cell_save_checkpoint (fresh_notebook small_model)))) ''checkpoint.pth''
     = None"
    by (simp add: Let_def)
  have c: "run_cell exact Completed SaveCheckpoint (cell_save_state_dict (fresh_notebook small_model))
     = (None, cell_save_checkpoint (cell_save_state_dict (fresh_notebook small_model)))"
    by (rule run_cell_completed)
  show ?thesis
    using a b c by blast
qed

text \<open>
  C10 (save leaves the model alone). After the checkpoint cell has run, the variable
  \<open>model\<close> holds the same network as before, with the same architecture fields and the
  same parameter values, the variable \<open>state_dict\<close> is as before, and the files are as
  before but for the destination \<open>checkpoint.pth\<close>, which holds the checkpoint.
\<close>

theorem save_leaves_model:
  "var_model (cell_save_checkpoint s) = var_model s
   \<and> architecture (var_model (cell_save_checkpoint s)) = architecture (var_model s)
   \<and> state_dict (var_model (cell_save_checkpoint s)) = state_dict (var_model s)
   \<and> var_state_dict (cell_save_checkpoint s) = var_state_dict s
   \<and> files (cell_save_checkpoint s)
       = (files s)(''checkpoint.pth'' \<mapsto> Pickled (checkpoint_of (var_model s)))"
  by (simp add: cell_save_checkpoint_def Let_def torch_save_def)

theorem save_leaves_model_witness:
  "var_model (cell_save_checkpoint (fresh_notebook small_model)) = small_model
   \<and> architecture (var_model (cell_save_checkpoint (fresh_notebook small_model))) = (2, 2, [1])
   \<and> state_dict (var_model (cell_save_checkpoint (fresh_notebook small_model)))
       = state_dict small_model
   \<and> files (cell_save_checkpoint (fresh_notebook small_model))
       = [''checkpoint.pth'' \<mapsto> Pickled (checkpoint_of small_model)]"
proof -
  have w: "var_model (fresh_notebook small_model) = small_model"
    "files (fresh_notebook small_model) = Map.empty"
    by (simp_all add: fresh_notebook_def)
  have a: "architecture small_model = (2, 2, [1])"
    by (simp add: architecture_def small_model_def input_size_def output_size_def
        hidden_layer_sizes_def)
  show ?thesis using save_leaves_model[of "fresh_notebook small_model"] w a by simp
qed

end
